theory Spec2Isabelle
  imports Main
begin

section \<open>The view of the micro editor: cmd/micro/view.go\<close>

text \<open>
  The development embeds the methods of the Go type \<^verbatim>\<open>View\<close> as functions on a record of
  its fields. A method that mutates its receiver takes the view and returns the updated view.

  Go's \<^verbatim>\<open>int\<close> is modelled by \<^typ>\<open>int\<close>: the quantities are line numbers, column numbers and
  terminal dimensions, and the model is exact as long as no intermediate value leaves the
  64-bit range. Go's integer division truncates towards zero; it is written out as
  \<open>quot\<close>.
\<close>

subsection \<open>Data\<close>

definition quot :: "int \<Rightarrow> int \<Rightarrow> int" where
  "quot a b = sgn a * sgn b * (\<bar>a\<bar> div \<bar>b\<bar>)"

text \<open>
  The types \<^verbatim>\<open>Cursor\<close> and \<^verbatim>\<open>Buffer\<close> are declared outside view.go. The records list the
  fields that view.go reads or writes; being extensible records, they stand for any struct
  with at least these fields. \<^verbatim>\<open>curSelection\<close> is a \<^verbatim>\<open>[2]int\<close>, here a pair. The
  back pointer \<^verbatim>\<open>v\<close> of the cursor is replaced by passing the buffer and the event handler
  along with the cursor (see \<open>doc\<close> below).
\<close>

record Cursor =
  x :: int
  y :: int
  lastVisualX :: int
  curSelection :: "int \<times> int"

record Buffer =
  lines :: "string list"
  path :: string
  name :: string

text \<open>
  The struct \<^verbatim>\<open>View\<close>. The event handler (\<^verbatim>\<open>*EventHandler\<close>) and the syntax matches
  (\<^verbatim>\<open>SyntaxMatches\<close>) are of types declared elsewhere and stay type parameters. The field
  \<^verbatim>\<open>sline\<close> holds nothing but a pointer back to the view and is left out. Times are
  nanoseconds on the wall clock.
\<close>

record ('c, 'b, 'h, 'm) View =
  cursor :: "'c Cursor_scheme"
  topline :: int
  leftCol :: int
  widthPercent :: int
  heightPercent :: int
  width :: int
  height :: int
  lineNumOffset :: int
  eh :: 'h
  buf :: "'b Buffer_scheme"
  mouseReleased :: bool
  lastClickTime :: int
  doubleClick :: bool
  tripleClick :: bool
  matches :: 'm
  lastMatches :: 'm
  updateLines :: "int \<times> int"

text \<open>\<^verbatim>\<open>len(v.buf.lines)\<close>\<close>

abbreviation len_lines :: "('c, 'b, 'h, 'm) View \<Rightarrow> int" where
  "len_lines v \<equiv> int (length (lines (buf v)))"

subsection \<open>Scrolling\<close>

text \<open>\<^verbatim>\<open>func (v *View) UpdateLines(start, end int)\<close>\<close>

definition UpdateLines :: "int \<Rightarrow> int \<Rightarrow> ('c, 'b, 'h, 'm) View \<Rightarrow> ('c, 'b, 'h, 'm) View" where
  "UpdateLines start end' v = v\<lparr>updateLines := (start, end' + 1)\<rparr>"

text \<open>\<^verbatim>\<open>func (v *View) ScrollUp(n int)\<close>\<close>

definition ScrollUp :: "int \<Rightarrow> ('c, 'b, 'h, 'm) View \<Rightarrow> ('c, 'b, 'h, 'm) View" where
  "ScrollUp n v =
     (if topline v - n \<ge> 0 then v\<lparr>topline := topline v - n\<rparr>
      else if topline v > 0 then v\<lparr>topline := topline v - 1\<rparr>
      else v)"

text \<open>\<^verbatim>\<open>func (v *View) ScrollDown(n int)\<close>\<close>

definition ScrollDown :: "int \<Rightarrow> ('c, 'b, 'h, 'm) View \<Rightarrow> ('c, 'b, 'h, 'm) View" where
  "ScrollDown n v =
     (if topline v + n \<le> len_lines v - height v then v\<lparr>topline := topline v + n\<rparr>
      else if topline v < len_lines v - height v then v\<lparr>topline := topline v + 1\<rparr>
      else v)"

text \<open>\<^verbatim>\<open>func (v *View) PageUp()\<close>\<close>

definition PageUp :: "('c, 'b, 'h, 'm) View \<Rightarrow> ('c, 'b, 'h, 'm) View" where
  "PageUp v =
     (if topline v > height v then ScrollUp (height v) v
      else v\<lparr>topline := 0\<rparr>)"

text \<open>\<^verbatim>\<open>func (v *View) PageDown()\<close>\<close>

definition PageDown :: "('c, 'b, 'h, 'm) View \<Rightarrow> ('c, 'b, 'h, 'm) View" where
  "PageDown v =
     (if len_lines v - (topline v + height v) > height v then ScrollDown (height v) v
      else if len_lines v \<ge> height v then v\<lparr>topline := len_lines v - height v\<rparr>
      else v)"

text \<open>\<^verbatim>\<open>func (v *View) HalfPageUp()\<close>\<close>

definition HalfPageUp :: "('c, 'b, 'h, 'm) View \<Rightarrow> ('c, 'b, 'h, 'm) View" where
  "HalfPageUp v =
     (if topline v > quot (height v) 2 then ScrollUp (quot (height v) 2) v
      else v\<lparr>topline := 0\<rparr>)"

text \<open>\<^verbatim>\<open>func (v *View) HalfPageDown()\<close>\<close>

definition HalfPageDown :: "('c, 'b, 'h, 'm) View \<Rightarrow> ('c, 'b, 'h, 'm) View" where
  "HalfPageDown v =
     (if len_lines v - (topline v + height v) > quot (height v) 2
      then ScrollDown (quot (height v) 2) v
      else if len_lines v \<ge> height v then v\<lparr>topline := len_lines v - height v\<rparr>
      else v)"

subsection \<open>Code outside view.go\<close>

text \<open>
  The methods of \<^verbatim>\<open>Cursor\<close>, \<^verbatim>\<open>EventHandler\<close> and \<^verbatim>\<open>Buffer\<close> and the helpers of
  util.go are not part of view.go. They are parameters of the model: a record of functions,
  one field for each method that view.go calls, under the method's name. A cursor method
  reaches the buffer and the event handler through its back pointer, so each of them acts
  on the triple of cursor, buffer and event handler (the \<open>doc\<close> of a view) and on
  nothing else of the view.
\<close>

type_synonym ('c, 'b, 'h) doc = "'c Cursor_scheme \<times> 'b Buffer_scheme \<times> 'h"

definition doc :: "('c, 'b, 'h, 'm) View \<Rightarrow> ('c, 'b, 'h) doc" where
  "doc v = (cursor v, buf v, eh v)"

definition set_doc :: "('c, 'b, 'h) doc \<Rightarrow> ('c, 'b, 'h, 'm) View \<Rightarrow> ('c, 'b, 'h, 'm) View" where
  "set_doc d v = (case d of (c, b, h) \<Rightarrow> v\<lparr>cursor := c, buf := b, eh := h\<rparr>)"

definition map_cursor ::
  "('c Cursor_scheme \<Rightarrow> 'c Cursor_scheme) \<Rightarrow> ('c, 'b, 'h) doc \<Rightarrow> ('c, 'b, 'h) doc" where
  "map_cursor f d = (case d of (c, b, h) \<Rightarrow> (f c, b, h))"

record ('c, 'b, 'h) EditOps =
  HasSelection :: "('c, 'b, 'h) doc \<Rightarrow> bool"
  GetSelection :: "('c, 'b, 'h) doc \<Rightarrow> string"
  DeleteSelection :: "('c, 'b, 'h) doc \<Rightarrow> ('c, 'b, 'h) doc"
  ResetSelection :: "('c, 'b, 'h) doc \<Rightarrow> ('c, 'b, 'h) doc"
  Loc :: "('c, 'b, 'h) doc \<Rightarrow> int"
  SetLoc :: "int \<Rightarrow> ('c, 'b, 'h) doc \<Rightarrow> ('c, 'b, 'h) doc"
  Up :: "('c, 'b, 'h) doc \<Rightarrow> ('c, 'b, 'h) doc"
  Down :: "('c, 'b, 'h) doc \<Rightarrow> ('c, 'b, 'h) doc"
  Left :: "('c, 'b, 'h) doc \<Rightarrow> ('c, 'b, 'h) doc"
  Right :: "('c, 'b, 'h) doc \<Rightarrow> ('c, 'b, 'h) doc"
  GetVisualX :: "('c, 'b, 'h) doc \<Rightarrow> int"
  GetCharPosInLine :: "int \<Rightarrow> int \<Rightarrow> ('c, 'b, 'h) doc \<Rightarrow> int"
  SelectLine :: "('c, 'b, 'h) doc \<Rightarrow> ('c, 'b, 'h) doc"
  SelectWord :: "('c, 'b, 'h) doc \<Rightarrow> ('c, 'b, 'h) doc"
  AddLineToSelection :: "('c, 'b, 'h) doc \<Rightarrow> ('c, 'b, 'h) doc"
  AddWordToSelection :: "('c, 'b, 'h) doc \<Rightarrow> ('c, 'b, 'h) doc"
  Insert :: "int \<Rightarrow> string \<Rightarrow> ('c, 'b, 'h) doc \<Rightarrow> ('c, 'b, 'h) doc"
  Remove :: "int \<Rightarrow> int \<Rightarrow> ('c, 'b, 'h) doc \<Rightarrow> ('c, 'b, 'h) doc"
  Undo :: "('c, 'b, 'h) doc \<Rightarrow> ('c, 'b, 'h) doc"
  Redo :: "('c, 'b, 'h) doc \<Rightarrow> ('c, 'b, 'h) doc"
  Count :: "string \<Rightarrow> int"
  ToCharPos :: "int \<Rightarrow> int \<Rightarrow> 'b Buffer_scheme \<Rightarrow> int"
  Spaces :: "int \<Rightarrow> string"
  Len :: "'b Buffer_scheme \<Rightarrow> int"
  IsDirty :: "'b Buffer_scheme \<Rightarrow> bool"
  NewBuffer :: "string \<Rightarrow> string \<Rightarrow> 'b Buffer_scheme"

text \<open>
  The globals of the program: the search state (\<^verbatim>\<open>searchStart\<close>, \<^verbatim>\<open>lastSearch\<close>) and,
  as one value \<open>env\<close> of a type parameter, everything behind the messenger, the system
  clipboard, the screen and the file system. The \<^verbatim>\<open>settings\<close> are read only.
\<close>

record ('c, 'b, 'h, 'm, 'e) World =
  view :: "('c, 'b, 'h, 'm) View"
  searchStart :: int
  lastSearch :: string
  env :: 'e

record Settings =
  TabsToSpaces :: bool
  TabSize :: int
  Syntax :: bool

text \<open>
  The collaborators that act on the globals: the clipboard library
  (\<^verbatim>\<open>clipboard.Unsupported\<close>, \<^verbatim>\<open>WriteAll\<close>, \<^verbatim>\<open>ReadAll\<close>, whose error results view.go drops),
  the messenger (\<^verbatim>\<open>Error\<close>, \<^verbatim>\<open>Message\<close>, \<^verbatim>\<open>Prompt\<close> with its answer and its
  \<^verbatim>\<open>canceled\<close> flag), \<^verbatim>\<open>ioutil.ReadFile\<close> (\<open>Inl\<close> the error text), \<^verbatim>\<open>Buffer.Save\<close>
  (the error text if any), \<^verbatim>\<open>strings.ToLower\<close>, the search of search.go, the highlighter
  \<^verbatim>\<open>Match\<close>, \<open>f32scale a p\<close> for the single precision expression
  \<^verbatim>\<open>int(float32(a) * float32(p) / 100)\<close> of \<^verbatim>\<open>Resize\<close>, and the constant
  \<^verbatim>\<open>doubleClickThreshold\<close> (milliseconds), which is declared outside view.go.
\<close>

record ('c, 'b, 'h, 'm, 'e) SysOps =
  Unsupported :: "'e \<Rightarrow> bool"
  WriteAll :: "string \<Rightarrow> 'e \<Rightarrow> 'e"
  ReadAll :: "'e \<Rightarrow> string"
  Error :: "string \<Rightarrow> 'e \<Rightarrow> 'e"
  Message :: "string \<Rightarrow> 'e \<Rightarrow> 'e"
  Prompt :: "string \<Rightarrow> 'e \<Rightarrow> (string \<times> bool) \<times> 'e"
  ReadFile :: "string \<Rightarrow> 'e \<Rightarrow> string + string"
  SaveBuffer :: "'b Buffer_scheme \<Rightarrow> 'e \<Rightarrow> string option \<times> 'b Buffer_scheme \<times> 'e"
  ToLower :: "string \<Rightarrow> string"
  BeginSearch :: "('c, 'b, 'h, 'm, 'e) World \<Rightarrow> ('c, 'b, 'h, 'm, 'e) World"
  Search :: "string \<Rightarrow> bool \<Rightarrow> ('c, 'b, 'h, 'm, 'e) World \<Rightarrow> ('c, 'b, 'h, 'm, 'e) World"
  Match :: "('c, 'b, 'h, 'm) View \<Rightarrow> 'm"
  f32scale :: "int \<Rightarrow> int \<Rightarrow> int"
  doubleClickThreshold :: int

subsection \<open>Resize and Relocate\<close>

text \<open>\<^verbatim>\<open>func (v *View) Resize(w, h int)\<close>\<close>

definition Resize ::
  "('c, 'b, 'h, 'm, 'e) SysOps \<Rightarrow> int \<Rightarrow> int \<Rightarrow> ('c, 'b, 'h, 'm) View \<Rightarrow> ('c, 'b, 'h, 'm) View" where
  "Resize sys w h v =
     (let h1 = h - 1
      in v\<lparr>width := f32scale sys w (widthPercent v),
            height := f32scale sys h1 (heightPercent v) - 1\<rparr>)"

text \<open>\<^verbatim>\<open>func (v *View) Relocate() bool\<close>: the result and the updated view.\<close>

definition Relocate ::
  "('c, 'b, 'h) EditOps \<Rightarrow> ('c, 'b, 'h, 'm) View \<Rightarrow> bool \<times> ('c, 'b, 'h, 'm) View" where
  "Relocate ops v =
     (let cy = y (cursor v);
          (ret1, v1) = (if cy < topline v then (True, v\<lparr>topline := cy\<rparr>) else (False, v));
          (ret2, v2) = (if cy > topline v1 + height v1 - 1
                        then (True, v1\<lparr>topline := cy - height v1 + 1\<rparr>) else (ret1, v1));
          cx = GetVisualX ops (doc v2);
          (ret3, v3) = (if cx < leftCol v2 then (True, v2\<lparr>leftCol := cx\<rparr>) else (ret2, v2));
          (ret4, v4) = (if cx + lineNumOffset v3 + 1 > leftCol v3 + width v3
                        then (True, v3\<lparr>leftCol := cx - width v3 + lineNumOffset v3 + 1\<rparr>)
                        else (ret3, v3))
      in (ret4, v4))"

subsection \<open>Clipboard, files, selection\<close>

text \<open>\<^verbatim>\<open>func (v *View) CanClose(msg string) bool\<close>\<close>

definition CanClose ::
  "('c, 'b, 'h) EditOps \<Rightarrow> ('c, 'b, 'h, 'm, 'e) SysOps \<Rightarrow> string
     \<Rightarrow> ('c, 'b, 'h, 'm, 'e) World \<Rightarrow> bool \<times> ('c, 'b, 'h, 'm, 'e) World" where
  "CanClose ops sys msg w =
     (if IsDirty ops (buf (view w)) then
        (case Prompt sys (''You have unsaved changes. '' @ msg) (env w) of
           ((quit, canceled), e1) \<Rightarrow>
             (if \<not> canceled then
                (if ToLower sys quit = ''yes'' \<or> ToLower sys quit = ''y''
                 then (True, w\<lparr>env := e1\<rparr>)
                 else (False, w\<lparr>env := e1\<rparr>))
              else (False, w\<lparr>env := e1\<rparr>)))
      else (True, w))"

text \<open>\<^verbatim>\<open>func (v *View) Save()\<close>; \<open>Inl\<close> is the early return after a canceled prompt.\<close>

definition Save ::
  "('c, 'b, 'h, 'm, 'e) SysOps \<Rightarrow> ('c, 'b, 'h, 'm, 'e) World \<Rightarrow> ('c, 'b, 'h, 'm, 'e) World" where
  "Save sys w =
     (case (if path (buf (view w)) = [] then
              (case Prompt sys ''Filename: '' (env w) of
                 ((filename, canceled), e1) \<Rightarrow>
                   (if \<not> canceled
                    then Inr (w\<lparr>view := (view w)\<lparr>buf := (buf (view w))\<lparr>path := filename, name := filename\<rparr>\<rparr>,
                                env := e1\<rparr>)
                    else Inl (w\<lparr>env := e1\<rparr>)))
            else Inr w) of
        Inl w1 \<Rightarrow> w1
      | Inr w1 \<Rightarrow>
          (case SaveBuffer sys (buf (view w1)) (env w1) of
             (err, b, e2) \<Rightarrow>
               (case err of
                  Some msg \<Rightarrow> w1\<lparr>view := (view w1)\<lparr>buf := b\<rparr>, env := Error sys msg e2\<rparr>
                | None \<Rightarrow> w1\<lparr>view := (view w1)\<lparr>buf := b\<rparr>,
                              env := Message sys (''Saved '' @ path b) e2\<rparr>)))"

text \<open>\<^verbatim>\<open>func (v *View) Copy()\<close>\<close>

definition Copy ::
  "('c, 'b, 'h) EditOps \<Rightarrow> ('c, 'b, 'h, 'm, 'e) SysOps
     \<Rightarrow> ('c, 'b, 'h, 'm, 'e) World \<Rightarrow> ('c, 'b, 'h, 'm, 'e) World" where
  "Copy ops sys w =
     (if HasSelection ops (doc (view w)) then
        (if \<not> Unsupported sys (env w)
         then w\<lparr>env := WriteAll sys (GetSelection ops (doc (view w))) (env w)\<rparr>
         else w\<lparr>env := Error sys ''Clipboard is not supported on your system'' (env w)\<rparr>)
      else w)"

text \<open>\<^verbatim>\<open>func (v *View) Cut()\<close>\<close>

definition Cut ::
  "('c, 'b, 'h) EditOps \<Rightarrow> ('c, 'b, 'h, 'm, 'e) SysOps
     \<Rightarrow> ('c, 'b, 'h, 'm, 'e) World \<Rightarrow> ('c, 'b, 'h, 'm, 'e) World" where
  "Cut ops sys w =
     (if HasSelection ops (doc (view w)) then
        (if \<not> Unsupported sys (env w)
         then w\<lparr>env := WriteAll sys (GetSelection ops (doc (view w))) (env w),
                view := set_doc (ResetSelection ops (DeleteSelection ops (doc (view w)))) (view w)\<rparr>
         else w\<lparr>env := Error sys ''Clipboard is not supported on your system'' (env w)\<rparr>)
      else w)"

text \<open>\<^verbatim>\<open>func (v *View) Paste()\<close>\<close>

definition Paste ::
  "('c, 'b, 'h) EditOps \<Rightarrow> ('c, 'b, 'h, 'm, 'e) SysOps
     \<Rightarrow> ('c, 'b, 'h, 'm, 'e) World \<Rightarrow> ('c, 'b, 'h, 'm, 'e) World" where
  "Paste ops sys w =
     (if \<not> Unsupported sys (env w) then
        (let d0 = doc (view w);
             d1 = (if HasSelection ops d0 then ResetSelection ops (DeleteSelection ops d0) else d0);
             clip = ReadAll sys (env w);
             d2 = Insert ops (Loc ops d1) clip d1;
             d3 = SetLoc ops (Loc ops d2 + Count ops clip) d2
         in w\<lparr>view := set_doc d3 (view w)\<rparr>)
      else w\<lparr>env := Error sys ''Clipboard is not supported on your system'' (env w)\<rparr>)"

text \<open>\<^verbatim>\<open>func (v *View) SelectAll()\<close>\<close>

definition SelectAll :: "('c, 'b, 'h) EditOps \<Rightarrow> ('c, 'b, 'h, 'm) View \<Rightarrow> ('c, 'b, 'h, 'm) View" where
  "SelectAll ops v = v\<lparr>cursor := (cursor v)\<lparr>curSelection := (Len ops (buf v), 0), x := 0, y := 0\<rparr>\<rparr>"

text \<open>\<^verbatim>\<open>func (v *View) OpenFile()\<close>\<close>

definition OpenFile ::
  "('c, 'b, 'h) EditOps \<Rightarrow> ('c, 'b, 'h, 'm, 'e) SysOps
     \<Rightarrow> ('c, 'b, 'h, 'm, 'e) World \<Rightarrow> ('c, 'b, 'h, 'm, 'e) World" where
  "OpenFile ops sys w =
     (case CanClose ops sys ''Continue? '' w of
        (ok, w1) \<Rightarrow>
          (if ok then
             (case Prompt sys ''File to open: '' (env w1) of
                ((filename, canceled), e2) \<Rightarrow>
                  (if canceled then w1\<lparr>env := e2\<rparr>
                   else
                     (case ReadFile sys filename e2 of
                        Inl err \<Rightarrow> w1\<lparr>env := Error sys err e2\<rparr>
                      | Inr file \<Rightarrow>
                          w1\<lparr>view := (view w1)\<lparr>buf := NewBuffer ops file filename\<rparr>, env := e2\<rparr>)))
           else w1))"

subsection \<open>Mouse clicks\<close>

text \<open>
  \<^verbatim>\<open>func (v *View) MoveToMouseClick(x, y int)\<close>. The index expression
  \<^verbatim>\<open>v.buf.lines[y]\<close> panics when the buffer has no line at all; that is the result \<open>None\<close>.
\<close>

definition MoveToMouseClick ::
  "('c, 'b, 'h) EditOps \<Rightarrow> int \<Rightarrow> int \<Rightarrow> ('c, 'b, 'h, 'm) View \<Rightarrow> ('c, 'b, 'h, 'm) View option" where
  "MoveToMouseClick ops mx my v =
     (let (v1, y1) = (if my - topline v > height v - 1
                      then (let v' = ScrollDown 1 v in (v', height v' + topline v' - 1))
                      else (v, my));
          y2 = (if y1 \<ge> len_lines v1 then len_lines v1 - 1 else y1);
          y3 = (if y2 < 0 then 0 else y2);
          x1 = (if mx < 0 then 0 else mx)
      in if y3 \<ge> len_lines v1 then None
         else
           (let x2 = GetCharPosInLine ops y3 x1 (doc v1);
                line = lines (buf v1) ! nat y3;
                x3 = (if x2 > Count ops line then Count ops line else x2);
                v2 = v1\<lparr>cursor := (cursor v1)\<lparr>x := x3, y := y3\<rparr>\<rparr>
            in Some (v2\<lparr>cursor := (cursor v2)\<lparr>lastVisualX := GetVisualX ops (doc v2)\<rparr>\<rparr>)))"

text \<open>
  \<^verbatim>\<open>time.Since(t)\<close> for the clock reading \<open>now\<close>: a \<^verbatim>\<open>Duration\<close> is a 64-bit count of
  nanoseconds, and the subtraction of two times saturates.
\<close>

definition Since :: "int \<Rightarrow> int \<Rightarrow> int" where
  "Since now t = max (- (2 ^ 63)) (min (2 ^ 63 - 1) (now - t))"

subsection \<open>Events\<close>

text \<open>
  The events of the terminal library, as far as \<^verbatim>\<open>HandleEvent\<close> tells them apart: the keys
  and the button masks that have a case of their own, and one more constructor each for
  every other key, button mask and event type. A key event carries the text
  \<^verbatim>\<open>string(e.Rune())\<close> of its rune; a mouse event carries its screen position.
\<close>

datatype Key =
    KeyUp | KeyDown | KeyLeft | KeyRight | KeyEnter | KeySpace | KeyBackspace2 | KeyBackspace
  | KeyTab | KeyCtrlS | KeyCtrlF | KeyCtrlN | KeyCtrlP | KeyCtrlZ | KeyCtrlY | KeyCtrlC
  | KeyCtrlX | KeyCtrlV | KeyCtrlA | KeyCtrlO | KeyHome | KeyEnd | KeyPgUp | KeyPgDn
  | KeyCtrlU | KeyCtrlD | KeyRune | KeyOther

datatype Button = Button1 | ButtonNone | WheelUp | WheelDown | ButtonOther

datatype Event =
    EventResize int int
  | EventKey Key string
  | EventMouse int int Button
  | EventOther

text \<open>The call \<^verbatim>\<open>v.UpdateLines(v.topline, v.topline+v.height)\<close>.\<close>

definition UpdateViewport :: "('c, 'b, 'h, 'm) View \<Rightarrow> ('c, 'b, 'h, 'm) View" where
  "UpdateViewport v = UpdateLines (topline v) (topline v + height v) v"

text \<open>
  The statement \<^verbatim>\<open>if v.cursor.HasSelection() { v.cursor.DeleteSelection();
  v.cursor.ResetSelection() }\<close>.
\<close>

definition DeleteIfSelected :: "('c, 'b, 'h) EditOps \<Rightarrow> ('c, 'b, 'h) doc \<Rightarrow> ('c, 'b, 'h) doc" where
  "DeleteIfSelected ops d =
     (if HasSelection ops d then ResetSelection ops (DeleteSelection ops d) else d)"

text \<open>
  The key cases of \<^verbatim>\<open>HandleEvent\<close>: the switch over \<^verbatim>\<open>e.Key()\<close>. The result is the
  local variable \<^verbatim>\<open>relocate\<close> and the state.
\<close>

definition HandleKey ::
  "('c, 'b, 'h) EditOps \<Rightarrow> ('c, 'b, 'h, 'm, 'e) SysOps \<Rightarrow> Settings \<Rightarrow> Key \<Rightarrow> string
     \<Rightarrow> ('c, 'b, 'h, 'm, 'e) World \<Rightarrow> bool \<times> ('c, 'b, 'h, 'm, 'e) World" where
  "HandleKey ops sys st k r w =
     (let v = view w; d = doc v in
      case k of
        KeyUp \<Rightarrow> (True, w\<lparr>view := set_doc (Up ops (ResetSelection ops d)) v\<rparr>)
      | KeyDown \<Rightarrow> (True, w\<lparr>view := set_doc (Down ops (ResetSelection ops d)) v\<rparr>)
      | KeyLeft \<Rightarrow> (True, w\<lparr>view := set_doc (Left ops (ResetSelection ops d)) v\<rparr>)
      | KeyRight \<Rightarrow> (True, w\<lparr>view := set_doc (Right ops (ResetSelection ops d)) v\<rparr>)
      | KeyEnter \<Rightarrow>
          (let d1 = DeleteIfSelected ops d;
               d2 = Insert ops (Loc ops d1) [CHR 0x0A] d1;
               d3 = Right ops d2;
               v1 = UpdateViewport (set_doc d3 v)
           in (True, w\<lparr>view := v1\<lparr>cursor := (cursor v1)\<lparr>lastVisualX := GetVisualX ops (doc v1)\<rparr>\<rparr>\<rparr>))
      | KeySpace \<Rightarrow>
          (let d1 = DeleteIfSelected ops d;
               d2 = Insert ops (Loc ops d1) '' '' d1;
               d3 = Right ops d2;
               v1 = set_doc d3 v
           in (True, w\<lparr>view := UpdateLines (y (cursor v1)) (y (cursor v1)) v1\<rparr>))
      | KeyBackspace2 \<Rightarrow>
          (let v1 =
             (if HasSelection ops d
              then UpdateViewport (set_doc (ResetSelection ops (DeleteSelection ops d)) v)
              else if Loc ops d > 0 then
                (let d1 = Left ops d;
                     cx = x (fst d1);
                     cy = y (fst d1);
                     d2 = Right ops d1;
                     loc = Loc ops d2;
                     d3 = Remove ops (loc - 1) loc d2;
                     d4 = map_cursor (\<lambda>c. c\<lparr>x := cx, y := cy\<rparr>) d3
                 in UpdateViewport (set_doc d4 v))
              else v)
           in (True, w\<lparr>view := v1\<lparr>cursor := (cursor v1)\<lparr>lastVisualX := GetVisualX ops (doc v1)\<rparr>\<rparr>\<rparr>))
      | KeyBackspace \<Rightarrow>
          (let v1 =
             (if HasSelection ops d
              then UpdateViewport (set_doc (ResetSelection ops (DeleteSelection ops d)) v)
              else if Loc ops d > 0 then
                (let d1 = Left ops d;
                     cx = x (fst d1);
                     cy = y (fst d1);
                     d2 = Right ops d1;
                     loc = Loc ops d2;
                     d3 = Remove ops (loc - 1) loc d2;
                     d4 = map_cursor (\<lambda>c. c\<lparr>x := cx, y := cy\<rparr>) d3
                 in UpdateViewport (set_doc d4 v))
              else v)
           in (True, w\<lparr>view := v1\<lparr>cursor := (cursor v1)\<lparr>lastVisualX := GetVisualX ops (doc v1)\<rparr>\<rparr>\<rparr>))
      | KeyTab \<Rightarrow>
          (let d1 = DeleteIfSelected ops d;
               d2 = (if TabsToSpaces st
                     then (Right ops ^^ nat (TabSize st))
                            (Insert ops (Loc ops d1) (Spaces ops (TabSize st)) d1)
                     else Right ops (Insert ops (Loc ops d1) [CHR 0x09] d1));
               v1 = set_doc d2 v
           in (True, w\<lparr>view := UpdateLines (y (cursor v1)) (y (cursor v1)) v1\<rparr>))
      | KeyCtrlS \<Rightarrow> (True, Save sys w)
      | KeyCtrlF \<Rightarrow>
          (True, BeginSearch sys
                   (w\<lparr>searchStart := (if HasSelection ops d then snd (curSelection (cursor v))
                                        else ToCharPos ops (x (cursor v)) (y (cursor v)) (buf v))\<rparr>))
      | KeyCtrlN \<Rightarrow>
          (let w1 = w\<lparr>searchStart := (if HasSelection ops d then snd (curSelection (cursor v))
                                        else ToCharPos ops (x (cursor v)) (y (cursor v)) (buf v))\<rparr>;
               w2 = w1\<lparr>env := Message sys (''Find: '' @ lastSearch w1) (env w1)\<rparr>
           in (True, Search sys (lastSearch w2) True w2))
      | KeyCtrlP \<Rightarrow>
          (let w1 = w\<lparr>searchStart := (if HasSelection ops d then fst (curSelection (cursor v))
                                        else ToCharPos ops (x (cursor v)) (y (cursor v)) (buf v))\<rparr>;
               w2 = w1\<lparr>env := Message sys (''Find: '' @ lastSearch w1) (env w1)\<rparr>
           in (True, Search sys (lastSearch w2) False w2))
      | KeyCtrlZ \<Rightarrow> (True, w\<lparr>view := UpdateViewport (set_doc (Undo ops d) v)\<rparr>)
      | KeyCtrlY \<Rightarrow> (True, w\<lparr>view := UpdateViewport (set_doc (Redo ops d) v)\<rparr>)
      | KeyCtrlC \<Rightarrow> (let w1 = Copy ops sys w in (True, w1\<lparr>view := UpdateViewport (view w1)\<rparr>))
      | KeyCtrlX \<Rightarrow> (let w1 = Cut ops sys w in (True, w1\<lparr>view := UpdateViewport (view w1)\<rparr>))
      | KeyCtrlV \<Rightarrow> (let w1 = Paste ops sys w in (True, w1\<lparr>view := UpdateViewport (view w1)\<rparr>))
      | KeyCtrlA \<Rightarrow> (True, w\<lparr>view := SelectAll ops v\<rparr>)
      | KeyCtrlO \<Rightarrow> (let w1 = OpenFile ops sys w in (True, w1\<lparr>view := UpdateViewport (view w1)\<rparr>))
      | KeyHome \<Rightarrow> (False, w\<lparr>view := v\<lparr>topline := 0\<rparr>\<rparr>)
      | KeyEnd \<Rightarrow>
          (False, w\<lparr>view := (if height v > len_lines v then v\<lparr>topline := 0\<rparr>
                               else v\<lparr>topline := len_lines v - height v\<rparr>)\<rparr>)
      | KeyPgUp \<Rightarrow> (False, w\<lparr>view := PageUp v\<rparr>)
      | KeyPgDn \<Rightarrow> (False, w\<lparr>view := PageDown v\<rparr>)
      | KeyCtrlU \<Rightarrow> (False, w\<lparr>view := HalfPageUp v\<rparr>)
      | KeyCtrlD \<Rightarrow> (False, w\<lparr>view := HalfPageDown v\<rparr>)
      | KeyRune \<Rightarrow>
          (let v1 = (if HasSelection ops d
                     then UpdateViewport (set_doc (ResetSelection ops (DeleteSelection ops d)) v)
                     else UpdateLines (y (cursor v)) (y (cursor v)) v);
               d1 = doc v1;
               d2 = Insert ops (Loc ops d1) r d1;
               d3 = Right ops d2
           in (True, w\<lparr>view := set_doc d3 v1\<rparr>))
      | KeyOther \<Rightarrow> (True, w))"

text \<open>
  The mouse cases of \<^verbatim>\<open>HandleEvent\<close>: the switch over \<^verbatim>\<open>e.Buttons()\<close>, after the
  screen position \<open>(ex, ey)\<close> has been moved into buffer coordinates. \<open>tsince\<close> is the clock
  as \<^verbatim>\<open>time.Since\<close> reads it and \<open>tnow\<close> the clock as \<^verbatim>\<open>time.Now\<close> reads it afterwards.
  The result is \<open>None\<close> when \<^verbatim>\<open>MoveToMouseClick\<close> panics.
\<close>

definition HandleMouse ::
  "('c, 'b, 'h) EditOps \<Rightarrow> ('c, 'b, 'h, 'm, 'e) SysOps \<Rightarrow> int \<Rightarrow> int \<Rightarrow> int \<Rightarrow> int \<Rightarrow> Button
     \<Rightarrow> ('c, 'b, 'h, 'm, 'e) World \<Rightarrow> (bool \<times> ('c, 'b, 'h, 'm, 'e) World) option" where
  "HandleMouse ops sys tsince tnow ex ey button w =
     (let v = view w;
          mx = ex - (lineNumOffset v - leftCol v) - 1;
          my = ey + topline v - 1
      in case button of
        Button1 \<Rightarrow>
          (let origX = x (cursor v); origY = y (cursor v) in
           case MoveToMouseClick ops mx my v of
             None \<Rightarrow> None
           | Some v1 \<Rightarrow>
               (let v2 =
                  (if mouseReleased v1 then
                     (if quot (Since tsince (lastClickTime v1)) 1000000 < doubleClickThreshold sys
                         \<and> (origX = x (cursor v1) \<and> origY = y (cursor v1)) then
                        (if doubleClick v1 then
                           (let v1a = v1\<lparr>lastClickTime := tnow, tripleClick := True, doubleClick := False\<rparr>
                            in set_doc (SelectLine ops (doc v1a)) v1a)
                         else
                           (let v1a = v1\<lparr>lastClickTime := tnow, doubleClick := True, tripleClick := False\<rparr>
                            in set_doc (SelectWord ops (doc v1a)) v1a))
                      else
                        (let v1a = v1\<lparr>doubleClick := False, tripleClick := False, lastClickTime := tnow\<rparr>;
                             loc = Loc ops (doc v1a)
                         in v1a\<lparr>cursor := (cursor v1a)\<lparr>curSelection := (loc, loc)\<rparr>\<rparr>))
                   else
                     (if tripleClick v1 then set_doc (AddLineToSelection ops (doc v1)) v1
                      else if doubleClick v1 then set_doc (AddWordToSelection ops (doc v1)) v1
                      else v1\<lparr>cursor := (cursor v1)\<lparr>curSelection :=
                                (fst (curSelection (cursor v1)), Loc ops (doc v1))\<rparr>\<rparr>))
                in Some (True, w\<lparr>view := v2\<lparr>mouseReleased := False\<rparr>\<rparr>)))
      | ButtonNone \<Rightarrow>
          (if \<not> mouseReleased v then
             (if \<not> doubleClick v \<and> \<not> tripleClick v then
                (case MoveToMouseClick ops mx my v of
                   None \<Rightarrow> None
                 | Some v1 \<Rightarrow>
                     Some (False, w\<lparr>view := v1\<lparr>cursor := (cursor v1)\<lparr>curSelection :=
                                      (fst (curSelection (cursor v1)), Loc ops (doc v1))\<rparr>,
                                    mouseReleased := True\<rparr>\<rparr>))
              else Some (False, w\<lparr>view := v\<lparr>mouseReleased := True\<rparr>\<rparr>))
           else Some (False, w))
      | WheelUp \<Rightarrow> Some (False, w\<lparr>view := UpdateViewport (ScrollUp 2 v)\<rparr>)
      | WheelDown \<Rightarrow> Some (False, w\<lparr>view := UpdateViewport (ScrollDown 2 v)\<rparr>)
      | ButtonOther \<Rightarrow> Some (True, w))"

text \<open>
  \<^verbatim>\<open>func (v *View) HandleEvent(event tcell.Event)\<close>: the range of lines to highlight is
  reset, the event is dispatched, and then the view is relocated (unless the case said
  otherwise) and highlighted again (if the setting asks for it).
\<close>

definition HandleEvent ::
  "('c, 'b, 'h) EditOps \<Rightarrow> ('c, 'b, 'h, 'm, 'e) SysOps \<Rightarrow> Settings \<Rightarrow> int \<Rightarrow> int \<Rightarrow> Event
     \<Rightarrow> ('c, 'b, 'h, 'm, 'e) World \<Rightarrow> ('c, 'b, 'h, 'm, 'e) World option" where
  "HandleEvent ops sys st tsince tnow event w0 =
     (let w = w0\<lparr>view := UpdateLines (- 2) 0 (view w0)\<rparr> in
      case (case event of
              EventResize rw rh \<Rightarrow> Some (True, w\<lparr>view := Resize sys rw rh (view w)\<rparr>)
            | EventKey k r \<Rightarrow> Some (HandleKey ops sys st k r w)
            | EventMouse ex ey button \<Rightarrow> HandleMouse ops sys tsince tnow ex ey button w
            | EventOther \<Rightarrow> Some (True, w)) of
        None \<Rightarrow> None
      | Some (relocate, w1) \<Rightarrow>
          (let w2 = (if relocate then w1\<lparr>view := snd (Relocate ops (view w1))\<rparr> else w1)
           in Some (if Syntax st then w2\<lparr>view := (view w2)\<lparr>matches := Match sys (view w2)\<rparr>\<rparr>
                    else w2)))"

text \<open>
  Modelled from the spec: the main loop, which is not part of view.go. It waits for the
  next event and processes it fully before it reads the one after; here the events come as
  a list, each with its two clock readings, and a panic ends the run.
\<close>

fun Run ::
  "('c, 'b, 'h) EditOps \<Rightarrow> ('c, 'b, 'h, 'm, 'e) SysOps \<Rightarrow> Settings \<Rightarrow> (int \<times> int \<times> Event) list
     \<Rightarrow> ('c, 'b, 'h, 'm, 'e) World \<Rightarrow> ('c, 'b, 'h, 'm, 'e) World option" where
  "Run ops sys st [] w = Some w"
| "Run ops sys st ((tsince, tnow, event) # es) w =
     (case HandleEvent ops sys st tsince tnow event w of
        None \<Rightarrow> None
      | Some w' \<Rightarrow> Run ops sys st es w')"

section \<open>The notions of the specification\<close>

text \<open>
  The cursor is visible: its line is one of the \<open>height\<close> lines from \<open>topline\<close> on, and
  its visual column is at or after \<open>leftCol\<close> and, drawn after the gutter, before the right
  edge. These are the four tests of \<^verbatim>\<open>Relocate\<close>.
\<close>

definition Visible :: "('c, 'b, 'h) EditOps \<Rightarrow> ('c, 'b, 'h, 'm) View \<Rightarrow> bool" where
  "Visible ops v =
     (topline v \<le> y (cursor v) \<and> y (cursor v) < topline v + height v
      \<and> leftCol v \<le> GetVisualX ops (doc v)
      \<and> GetVisualX ops (doc v) + lineNumOffset v < leftCol v + width v)"


text \<open>The invariant \<open>topLine \<in> [0, max(0, lineCount - height)]\<close>.\<close>

definition TopLineInRange :: "('c, 'b, 'h, 'm) View \<Rightarrow> bool" where
  "TopLineInRange v = (0 \<le> topline v \<and> topline v \<le> max 0 (len_lines v - height v))"

text \<open>
  The value of \<^verbatim>\<open>updateLines\<close> that stands for the lines \<open>topline\<close> to
  \<open>topline + height\<close>, both included (\<^verbatim>\<open>UpdateLines\<close> stores the end plus one), and the
  value that stands for the line of the cursor alone.
\<close>

definition Viewport :: "('c, 'b, 'h, 'm) View \<Rightarrow> int \<times> int" where
  "Viewport v = (topline v, topline v + height v + 1)"

definition CursorLine :: "('c, 'b, 'h, 'm) View \<Rightarrow> int \<times> int" where
  "CursorLine v = (y (cursor v), y (cursor v) + 1)"

text \<open>The range that is marked for highlighting when an event has been handled.\<close>

definition Marked ::
  "('c, 'b, 'h) EditOps \<Rightarrow> ('c, 'b, 'h, 'm, 'e) SysOps \<Rightarrow> Settings \<Rightarrow> int \<Rightarrow> int \<Rightarrow> Event
     \<Rightarrow> ('c, 'b, 'h, 'm, 'e) World \<Rightarrow> (int \<times> int) option" where
  "Marked ops sys st tsince tnow event w =
     map_option (\<lambda>w'. updateLines (view w')) (HandleEvent ops sys st tsince tnow event w)"

text \<open>The line of the cursor, as a range, when an event has been handled.\<close>

definition CursorLineAfter ::
  "('c, 'b, 'h) EditOps \<Rightarrow> ('c, 'b, 'h, 'm, 'e) SysOps \<Rightarrow> Settings \<Rightarrow> int \<Rightarrow> int \<Rightarrow> Event
     \<Rightarrow> ('c, 'b, 'h, 'm, 'e) World \<Rightarrow> (int \<times> int) option" where
  "CursorLineAfter ops sys st tsince tnow event w =
     map_option (\<lambda>w'. CursorLine (view w')) (HandleEvent ops sys st tsince tnow event w)"

text \<open>
  The cursor, buffer and event handler with the cursor at the buffer position that a mouse
  event at the screen cell \<open>(ex, ey)\<close> resolves to: the first lines of the mouse case of
  \<^verbatim>\<open>HandleEvent\<close> and \<^verbatim>\<open>MoveToMouseClick\<close>.
\<close>

definition Resolve ::
  "('c, 'b, 'h) EditOps \<Rightarrow> int \<Rightarrow> int \<Rightarrow> ('c, 'b, 'h, 'm) View \<Rightarrow> ('c, 'b, 'h) doc option" where
  "Resolve ops ex ey v =
     map_option doc
       (MoveToMouseClick ops (ex - (lineNumOffset v - leftCol v) - 1) (ey + topline v - 1) v)"

text \<open>The test of the double click threshold, at the clock reading \<open>tsince\<close>.\<close>

definition WithinThreshold :: "('c, 'b, 'h, 'm, 'e) SysOps \<Rightarrow> int \<Rightarrow> ('c, 'b, 'h, 'm) View \<Rightarrow> bool" where
  "WithinThreshold sys tsince v =
     (quot (Since tsince (lastClickTime v)) 1000000 < doubleClickThreshold sys)"

text \<open>
  What a click leaves behind: the flags \<^verbatim>\<open>doubleClick\<close> and \<^verbatim>\<open>tripleClick\<close>, the selection
  and the position of the cursor.
\<close>

definition ClickState :: "('c, 'b, 'h, 'm, 'e) World \<Rightarrow> bool \<times> bool \<times> (int \<times> int) \<times> (int \<times> int)" where
  "ClickState w =
     (doubleClick (view w), tripleClick (view w), curSelection (cursor (view w)),
      (x (cursor (view w)), y (cursor (view w))))"

section \<open>A plain document for the examples\<close>

text \<open>
  Modelled from the spec: the cursor, buffer, undo history, clipboard and messenger, which
  view.go uses and does not define. The examples of this development need one value for
  each parameter of the model; these are the simplest ones that follow the spec's
  description, for buffers of ASCII lines without tabs (so that a visual column is a
  logical column and a rune is a byte). The undo history keeps whole snapshots. The
  search of search.go is left out: \<open>BeginSearch\<close> and \<open>Search\<close> do nothing here.
  None of the general theorems depends on these definitions: each of them holds for every
  value of the parameters.
\<close>

text \<open>
  Modelled from the spec: the state behind the parameters. The cursor also keeps the
  selection made by the click that started a drag, the buffer the lines as last saved, the
  event handler an undo and a redo stack; the environment holds the clipboard, the
  messages shown, the answers the user will give to prompts and the files on disk.
\<close>

record PlainCursor = Cursor +
  origSelection :: "int \<times> int"

record PlainBuffer = Buffer +
  savedLines :: "string list"

type_synonym history = "(PlainCursor \<times> PlainBuffer) list \<times> (PlainCursor \<times> PlainBuffer) list"

type_synonym plain_doc = "PlainCursor \<times> PlainBuffer \<times> history"

record PlainEnv =
  clipboardUnsupported :: bool
  clipboardText :: string
  messages :: "(bool \<times> string) list"
  answers :: "(string \<times> bool) list"
  files :: "(string \<times> string) list"

text \<open>
  Modelled from the spec: the document as one text, the lines joined by newlines, and the
  conversion between an offset into that text and a line and column (a newline counts as
  one character).
\<close>

fun join_lines :: "string list \<Rightarrow> string" where
  "join_lines [] = []"
| "join_lines [l] = l"
| "join_lines (l # m # ls) = l @ CHR 0x0A # join_lines (m # ls)"

fun split_lines :: "string \<Rightarrow> string list" where
  "split_lines [] = [[]]"
| "split_lines (c # cs) =
     (if c = CHR 0x0A then [] # split_lines cs
      else (case split_lines cs of [] \<Rightarrow> [[c]] | l # ls \<Rightarrow> (c # l) # ls))"

definition line_at :: "PlainBuffer \<Rightarrow> int \<Rightarrow> string" where
  "line_at b n = (if 0 \<le> n \<and> n < int (length (lines b)) then lines b ! nat n else [])"

definition plain_Count :: "string \<Rightarrow> int" where
  "plain_Count s = int (length s)"

definition plain_ToCharPos :: "int \<Rightarrow> int \<Rightarrow> PlainBuffer \<Rightarrow> int" where
  "plain_ToCharPos cx cy b = sum_list (map (\<lambda>l. int (length l) + 1) (take (nat cy) (lines b))) + cx"

fun FromCharPos :: "int \<Rightarrow> string list \<Rightarrow> int \<times> int" where
  "FromCharPos loc [] = (0, 0)"
| "FromCharPos loc [l] = (loc, 0)"
| "FromCharPos loc (l # m # ls) =
     (if loc \<le> int (length l) then (loc, 0)
      else (case FromCharPos (loc - int (length l) - 1) (m # ls) of (cx, cy) \<Rightarrow> (cx, cy + 1)))"

definition plain_Len :: "PlainBuffer \<Rightarrow> int" where
  "plain_Len b = int (length (join_lines (lines b)))"

definition plain_Loc :: "plain_doc \<Rightarrow> int" where
  "plain_Loc d = (case d of (c, b, h) \<Rightarrow> plain_ToCharPos (x c) (y c) b)"

definition plain_SetLoc :: "int \<Rightarrow> plain_doc \<Rightarrow> plain_doc" where
  "plain_SetLoc loc d =
     (case d of (c, b, h) \<Rightarrow>
        (case FromCharPos (max 0 (min (plain_Len b) loc)) (lines b) of
           (cx, cy) \<Rightarrow> (c\<lparr>x := cx, y := cy, lastVisualX := cx\<rparr>, b, h)))"

text \<open>
  Modelled from the spec: the selection is empty iff its two offsets are equal;
  \<^verbatim>\<open>ResetSelection\<close> collapses it; \<^verbatim>\<open>DeleteSelection\<close> removes the range between the
  smaller and the larger offset and puts the cursor at its start. \<^verbatim>\<open>Insert\<close> and
  \<^verbatim>\<open>Remove\<close> clamp their offsets and record the state before the edit; \<^verbatim>\<open>Undo\<close> and
  \<^verbatim>\<open>Redo\<close> do nothing on an empty stack.
\<close>

definition plain_HasSelection :: "plain_doc \<Rightarrow> bool" where
  "plain_HasSelection d = (case d of (c, b, h) \<Rightarrow> fst (curSelection c) \<noteq> snd (curSelection c))"

definition plain_ResetSelection :: "plain_doc \<Rightarrow> plain_doc" where
  "plain_ResetSelection d =
     (case d of (c, b, h) \<Rightarrow> (c\<lparr>curSelection := (snd (curSelection c), snd (curSelection c))\<rparr>, b, h))"

definition plain_GetSelection :: "plain_doc \<Rightarrow> string" where
  "plain_GetSelection d =
     (case d of (c, b, h) \<Rightarrow>
        (let lo = min (fst (curSelection c)) (snd (curSelection c));
             hi = max (fst (curSelection c)) (snd (curSelection c))
         in take (nat (hi - lo)) (drop (nat lo) (join_lines (lines b)))))"

definition plain_Insert :: "int \<Rightarrow> string \<Rightarrow> plain_doc \<Rightarrow> plain_doc" where
  "plain_Insert pos s d =
     (case d of (c, b, h) \<Rightarrow>
        (let t = join_lines (lines b); p = nat (max 0 (min (int (length t)) pos))
         in (c, b\<lparr>lines := split_lines (take p t @ s @ drop p t)\<rparr>, ((c, b) # fst h, []))))"

definition plain_Remove :: "int \<Rightarrow> int \<Rightarrow> plain_doc \<Rightarrow> plain_doc" where
  "plain_Remove from to d =
     (case d of (c, b, h) \<Rightarrow>
        (let t = join_lines (lines b);
             p = nat (max 0 (min (int (length t)) from));
             q = nat (max 0 (min (int (length t)) to))
         in (c, b\<lparr>lines := split_lines (take p t @ drop q t)\<rparr>, ((c, b) # fst h, []))))"

definition plain_DeleteSelection :: "plain_doc \<Rightarrow> plain_doc" where
  "plain_DeleteSelection d =
     (case d of (c, b, h) \<Rightarrow>
        (let lo = min (fst (curSelection c)) (snd (curSelection c));
             hi = max (fst (curSelection c)) (snd (curSelection c))
         in plain_SetLoc lo (plain_Remove lo hi d)))"

definition plain_Undo :: "plain_doc \<Rightarrow> plain_doc" where
  "plain_Undo d =
     (case d of (c, b, (us, rs)) \<Rightarrow>
        (case us of [] \<Rightarrow> d | (c0, b0) # us' \<Rightarrow> (c0, b0, (us', (c, b) # rs))))"

definition plain_Redo :: "plain_doc \<Rightarrow> plain_doc" where
  "plain_Redo d =
     (case d of (c, b, (us, rs)) \<Rightarrow>
        (case rs of [] \<Rightarrow> d | (c1, b1) # rs' \<Rightarrow> (c1, b1, ((c, b) # us, rs'))))"

text \<open>
  Modelled from the spec: \<^verbatim>\<open>Left\<close> and \<^verbatim>\<open>Right\<close> move by one character and cross the
  line ends; \<^verbatim>\<open>Up\<close> and \<^verbatim>\<open>Down\<close> move to the adjacent line and keep the wanted column.
\<close>

definition plain_Left :: "plain_doc \<Rightarrow> plain_doc" where
  "plain_Left d =
     (case d of (c, b, h) \<Rightarrow>
        (if 0 < x c then (c\<lparr>x := x c - 1, lastVisualX := x c - 1\<rparr>, b, h)
         else if 0 < y c
           then (c\<lparr>x := plain_Count (line_at b (y c - 1)), y := y c - 1,
                    lastVisualX := plain_Count (line_at b (y c - 1))\<rparr>, b, h)
         else d))"

definition plain_Right :: "plain_doc \<Rightarrow> plain_doc" where
  "plain_Right d =
     (case d of (c, b, h) \<Rightarrow>
        (if x c < plain_Count (line_at b (y c)) then (c\<lparr>x := x c + 1, lastVisualX := x c + 1\<rparr>, b, h)
         else if y c < int (length (lines b)) - 1 then (c\<lparr>x := 0, y := y c + 1, lastVisualX := 0\<rparr>, b, h)
         else d))"

definition plain_Up :: "plain_doc \<Rightarrow> plain_doc" where
  "plain_Up d =
     (case d of (c, b, h) \<Rightarrow>
        (if 0 < y c
         then (c\<lparr>x := min (lastVisualX c) (plain_Count (line_at b (y c - 1))), y := y c - 1\<rparr>, b, h)
         else d))"

definition plain_Down :: "plain_doc \<Rightarrow> plain_doc" where
  "plain_Down d =
     (case d of (c, b, h) \<Rightarrow>
        (if y c < int (length (lines b)) - 1
         then (c\<lparr>x := min (lastVisualX c) (plain_Count (line_at b (y c + 1))), y := y c + 1\<rparr>, b, h)
         else d))"

text \<open>
  Modelled from the spec: \<^verbatim>\<open>SelectWord\<close> and \<^verbatim>\<open>SelectLine\<close> select the word and the line
  around the cursor; \<^verbatim>\<open>AddWordToSelection\<close> and \<^verbatim>\<open>AddLineToSelection\<close> keep the word or
  line of the original click and move the far edge to the word or line under the cursor. A
  word is taken to be a maximal run of characters other than the space.
\<close>

definition word_start :: "string \<Rightarrow> int \<Rightarrow> int" where
  "word_start l cx = cx - int (length (takeWhile (\<lambda>c. c \<noteq> CHR '' '') (rev (take (nat cx) l))))"

definition word_end :: "string \<Rightarrow> int \<Rightarrow> int" where
  "word_end l cx = cx + int (length (takeWhile (\<lambda>c. c \<noteq> CHR '' '') (drop (nat cx) l)))"

definition word_range :: "PlainCursor \<Rightarrow> PlainBuffer \<Rightarrow> int \<times> int" where
  "word_range c b =
     (plain_ToCharPos (word_start (line_at b (y c)) (x c)) (y c) b,
      plain_ToCharPos (word_end (line_at b (y c)) (x c)) (y c) b)"

definition line_range :: "PlainCursor \<Rightarrow> PlainBuffer \<Rightarrow> int \<times> int" where
  "line_range c b =
     (plain_ToCharPos 0 (y c) b, plain_ToCharPos (plain_Count (line_at b (y c))) (y c) b)"

definition plain_SelectWord :: "plain_doc \<Rightarrow> plain_doc" where
  "plain_SelectWord d =
     (case d of (c, b, h) \<Rightarrow> (c\<lparr>curSelection := word_range c b, origSelection := word_range c b\<rparr>, b, h))"

definition plain_SelectLine :: "plain_doc \<Rightarrow> plain_doc" where
  "plain_SelectLine d =
     (case d of (c, b, h) \<Rightarrow> (c\<lparr>curSelection := line_range c b, origSelection := line_range c b\<rparr>, b, h))"

definition extend_selection :: "(int \<times> int) \<Rightarrow> PlainCursor \<Rightarrow> PlainCursor" where
  "extend_selection r c =
     (if fst r < fst (origSelection c) then c\<lparr>curSelection := (fst r, snd (origSelection c))\<rparr>
      else if snd (origSelection c) < snd r then c\<lparr>curSelection := (fst (origSelection c), snd r)\<rparr>
      else c\<lparr>curSelection := origSelection c\<rparr>)"

definition plain_AddWordToSelection :: "plain_doc \<Rightarrow> plain_doc" where
  "plain_AddWordToSelection d = (case d of (c, b, h) \<Rightarrow> (extend_selection (word_range c b) c, b, h))"

definition plain_AddLineToSelection :: "plain_doc \<Rightarrow> plain_doc" where
  "plain_AddLineToSelection d = (case d of (c, b, h) \<Rightarrow> (extend_selection (line_range c b) c, b, h))"

definition plain_NewBuffer :: "string \<Rightarrow> string \<Rightarrow> PlainBuffer" where
  "plain_NewBuffer t p = \<lparr>lines = split_lines t, path = p, name = p, savedLines = split_lines t\<rparr>"

definition plain_ops :: "(unit PlainCursor_ext, unit PlainBuffer_ext, history) EditOps" where
  "plain_ops =
     \<lparr>HasSelection = plain_HasSelection, GetSelection = plain_GetSelection,
      DeleteSelection = plain_DeleteSelection, ResetSelection = plain_ResetSelection,
      Loc = plain_Loc, SetLoc = plain_SetLoc,
      Up = plain_Up, Down = plain_Down, Left = plain_Left, Right = plain_Right,
      GetVisualX = (\<lambda>d. x (fst d)), GetCharPosInLine = (\<lambda>n p d. p),
      SelectLine = plain_SelectLine, SelectWord = plain_SelectWord,
      AddLineToSelection = plain_AddLineToSelection, AddWordToSelection = plain_AddWordToSelection,
      Insert = plain_Insert, Remove = plain_Remove, Undo = plain_Undo, Redo = plain_Redo,
      Count = plain_Count, ToCharPos = plain_ToCharPos,
      Spaces = (\<lambda>n. replicate (nat n) (CHR '' '')),
      Len = plain_Len, IsDirty = (\<lambda>b. lines b \<noteq> savedLines b), NewBuffer = plain_NewBuffer\<rparr>"

type_synonym plain_view = "(unit PlainCursor_ext, unit PlainBuffer_ext, history, unit) View"

type_synonym plain_world = "(unit PlainCursor_ext, unit PlainBuffer_ext, history, unit, PlainEnv) World"

text \<open>
  Modelled from the spec: the collaborators on the environment. A prompt takes the next
  prepared answer and is canceled when there is none; the messenger appends to the messages
  shown (with \<open>True\<close> for an error); \<open>f32scale\<close> is the exact quotient, which is what the
  single precision expression of \<^verbatim>\<open>Resize\<close> gives for products below \<open>2 ^ 24\<close>; the
  double click threshold is 400 milliseconds.
\<close>

definition plain_Prompt :: "string \<Rightarrow> PlainEnv \<Rightarrow> (string \<times> bool) \<times> PlainEnv" where
  "plain_Prompt msg e =
     (case answers e of [] \<Rightarrow> (([], True), e) | a # as \<Rightarrow> (a, e\<lparr>answers := as\<rparr>))"

definition plain_ToLower :: "string \<Rightarrow> string" where
  "plain_ToLower s =
     map (\<lambda>c. if 65 \<le> (of_char c :: nat) \<and> (of_char c :: nat) \<le> 90
               then char_of (of_char c + (32 :: nat)) else c) s"

definition plain_sys ::
  "(unit PlainCursor_ext, unit PlainBuffer_ext, history, unit, PlainEnv) SysOps" where
  "plain_sys =
     \<lparr>Unsupported = clipboardUnsupported,
      WriteAll = (\<lambda>s e. e\<lparr>clipboardText := s\<rparr>),
      ReadAll = clipboardText,
      Error = (\<lambda>s e. e\<lparr>messages := messages e @ [(True, s)]\<rparr>),
      Message = (\<lambda>s e. e\<lparr>messages := messages e @ [(False, s)]\<rparr>),
      Prompt = plain_Prompt,
      ReadFile = (\<lambda>p e. case map_of (files e) p of None \<Rightarrow> Inl ''no such file'' | Some t \<Rightarrow> Inr t),
      SaveBuffer = (\<lambda>b e. (None, b\<lparr>savedLines := lines b\<rparr>,
                             e\<lparr>files := (path b, join_lines (lines b)) # files e\<rparr>)),
      ToLower = plain_ToLower,
      BeginSearch = (\<lambda>w. w),
      Search = (\<lambda>s down w. w),
      Match = (\<lambda>v. ()),
      f32scale = (\<lambda>a p. quot (a * p) 100),
      doubleClickThreshold = 400\<rparr>"

definition plain_settings :: Settings where
  "plain_settings = \<lparr>TabsToSpaces = False, TabSize = 4, Syntax = True\<rparr>"

subsection \<open>Example states\<close>

text \<open>
  A view of 80 columns and 10 lines on a buffer of eight lines, with a gutter of two
  columns, the cursor at the start of the buffer and nothing selected; and the worlds
  around it, with and without a clipboard.
\<close>

definition demo_view :: plain_view where
  "demo_view =
     \<lparr>cursor = \<lparr>x = 0, y = 0, lastVisualX = 0, curSelection = (0, 0), origSelection = (0, 0)\<rparr>,
      topline = 0, leftCol = 0, widthPercent = 100, heightPercent = 100, width = 80, height = 10,
      lineNumOffset = 2, eh = ([], []),
      buf = plain_NewBuffer
              (join_lines [''hello world'', ''foo bar'', ''one'', ''two'', ''three'', ''four'', ''five'', ''six''])
              ''a.txt'',
      mouseReleased = True, lastClickTime = 0, doubleClick = False, tripleClick = False,
      matches = (), lastMatches = (), updateLines = (0, 11)\<rparr>"

definition demo_world :: "bool \<Rightarrow> plain_view \<Rightarrow> plain_world" where
  "demo_world unsupported v =
     \<lparr>view = v, searchStart = 0, lastSearch = [],
      env = \<lparr>clipboardUnsupported = unsupported, clipboardText = ''XY'', messages = [],
             answers = [], files = []\<rparr>\<rparr>"

text \<open>The cursor of the example view moved to column \<open>cx\<close> of line \<open>cy\<close>.\<close>

definition cursor_at :: "int \<Rightarrow> int \<Rightarrow> plain_view \<Rightarrow> plain_view" where
  "cursor_at cx cy v = v\<lparr>cursor := (cursor v)\<lparr>x := cx, y := cy, lastVisualX := cx\<rparr>\<rparr>"

text \<open>The selection of the example view set to the offsets \<open>a\<close> and \<open>b\<close>.\<close>

definition selection_at :: "int \<Rightarrow> int \<Rightarrow> plain_view \<Rightarrow> plain_view" where
  "selection_at a b v = v\<lparr>cursor := (cursor v)\<lparr>curSelection := (a, b)\<rparr>\<rparr>"

text \<open>
  A press of the left button on the cell of column 2 of the first line at one second, the
  release on the cell of column 8 at 1.05 seconds, and a second press there at 1.1 seconds.
\<close>

definition drag_then_click :: "(int \<times> int \<times> Event) list" where
  "drag_then_click =
     [(1000000000, 1000000001, EventMouse 5 1 Button1),
      (1050000000, 1050000001, EventMouse 11 1 ButtonNone),
      (1100000000, 1100000001, EventMouse 11 1 Button1)]"

section \<open>Properties\<close>

subsection \<open>Auxiliary facts\<close>


lemma doc_set_doc [simp]: "doc (set_doc d v) = d"
  by (simp add: doc_def set_doc_def split: prod.splits)

lemma set_doc_frame [simp]:
  "topline (set_doc d v) = topline v" "leftCol (set_doc d v) = leftCol v"
  "width (set_doc d v) = width v" "height (set_doc d v) = height v"
  "lineNumOffset (set_doc d v) = lineNumOffset v" "updateLines (set_doc d v) = updateLines v"
  "mouseReleased (set_doc d v) = mouseReleased v" "lastClickTime (set_doc d v) = lastClickTime v"
  "doubleClick (set_doc d v) = doubleClick v" "tripleClick (set_doc d v) = tripleClick v"
  "cursor (set_doc d v) = fst d" "buf (set_doc d v) = fst (snd d)" "eh (set_doc d v) = snd (snd d)"
  by (simp_all add: set_doc_def split: prod.splits)

lemma UpdateLines_frame [simp]:
  "updateLines (UpdateLines a b v) = (a, b + 1)"
  "topline (UpdateLines a b v) = topline v" "leftCol (UpdateLines a b v) = leftCol v"
  "width (UpdateLines a b v) = width v" "height (UpdateLines a b v) = height v"
  "lineNumOffset (UpdateLines a b v) = lineNumOffset v"
  "mouseReleased (UpdateLines a b v) = mouseReleased v"
  "lastClickTime (UpdateLines a b v) = lastClickTime v"
  "doubleClick (UpdateLines a b v) = doubleClick v" "tripleClick (UpdateLines a b v) = tripleClick v"
  "cursor (UpdateLines a b v) = cursor v" "buf (UpdateLines a b v) = buf v"
  "eh (UpdateLines a b v) = eh v" "doc (UpdateLines a b v) = doc v"
  by (simp_all add: UpdateLines_def doc_def)

lemma UpdateViewport_frame [simp]:
  "updateLines (UpdateViewport v) = Viewport v"
  "topline (UpdateViewport v) = topline v" "height (UpdateViewport v) = height v"
  "doc (UpdateViewport v) = doc v" "cursor (UpdateViewport v) = cursor v"
  by (simp_all add: UpdateViewport_def Viewport_def)

lemma Viewport_cong [simp]:
  "Viewport (set_doc d v) = Viewport v" "Viewport (UpdateLines a b v) = Viewport v"
  by (simp_all add: Viewport_def)

lemma Relocate_frame [simp]:
  "doc (snd (Relocate ops v)) = doc v" "updateLines (snd (Relocate ops v)) = updateLines v"
  "cursor (snd (Relocate ops v)) = cursor v"
  "height (snd (Relocate ops v)) = height v" "width (snd (Relocate ops v)) = width v"
  "lineNumOffset (snd (Relocate ops v)) = lineNumOffset v"
  "mouseReleased (snd (Relocate ops v)) = mouseReleased v"
  "lastClickTime (snd (Relocate ops v)) = lastClickTime v"
  "doubleClick (snd (Relocate ops v)) = doubleClick v"
  "tripleClick (snd (Relocate ops v)) = tripleClick v"
  by (simp_all add: Relocate_def Let_def doc_def split: prod.splits)

lemma Relocate_visible: "Visible ops v \<Longrightarrow> Relocate ops v = (False, v)"
  by (simp add: Relocate_def Visible_def Let_def doc_def)


lemma Relocate_ret:
  assumes "1 \<le> height v" and "lineNumOffset v + 1 \<le> width v"
  shows "fst (Relocate ops v) \<longleftrightarrow>
           (topline (snd (Relocate ops v)) \<noteq> topline v \<or> leftCol (snd (Relocate ops v)) \<noteq> leftCol v)"
  using assms by (auto simp add: Relocate_def Let_def doc_def split: prod.splits if_splits)


lemma plain_ops_simps [simp]:
  "GetVisualX plain_ops d = x (fst d)" "HasSelection plain_ops = plain_HasSelection"
  "Loc plain_ops = plain_Loc" "Count plain_ops = plain_Count"
  "GetCharPosInLine plain_ops n p d = p" "SelectWord plain_ops = plain_SelectWord"
  "SelectLine plain_ops = plain_SelectLine"
  by (simp_all add: plain_ops_def)

lemma plain_sys_simps [simp]:
  "Unsupported plain_sys = clipboardUnsupported" "doubleClickThreshold plain_sys = 400"
  "Error plain_sys s e = e\<lparr>messages := messages e @ [(True, s)]\<rparr>"
  "f32scale plain_sys a p = quot (a * p) 100" "Match plain_sys v = ()"
  by (simp_all add: plain_sys_def)

lemma demo_view_simps [simp]:
  "topline demo_view = 0" "leftCol demo_view = 0" "width demo_view = 80" "height demo_view = 10"
  "lineNumOffset demo_view = 2" "widthPercent demo_view = 100" "heightPercent demo_view = 100"
  "mouseReleased demo_view" "lastClickTime demo_view = 0"
  "\<not> doubleClick demo_view" "\<not> tripleClick demo_view"
  "x (cursor demo_view) = 0" "y (cursor demo_view) = 0"
  "curSelection (cursor demo_view) = (0, 0)"
  "lines (buf demo_view) =
     [''hello world'', ''foo bar'', ''one'', ''two'', ''three'', ''four'', ''five'', ''six'']"
  by (simp_all add: demo_view_def plain_NewBuffer_def)

lemma Resize_frame [simp]:
  "topline (Resize sys rw rh v) = topline v" "buf (Resize sys rw rh v) = buf v"
  "height (Resize sys rw rh v) = f32scale sys (rh - 1) (heightPercent v) - 1"
  "width (Resize sys rw rh v) = f32scale sys rw (widthPercent v)"
  by (simp_all add: Resize_def Let_def)

lemma Paste_frame [simp]:
  "topline (view (Paste ops sys w)) = topline (view w)"
  "height (view (Paste ops sys w)) = height (view w)"
  by (simp_all add: Paste_def Let_def)

lemma demo_world_simps [simp]:
  "view (demo_world u v) = v" "clipboardUnsupported (env (demo_world u v)) = u"
  "messages (env (demo_world u v)) = []"
  by (simp_all add: demo_world_def)

lemma cursor_at_simps [simp]:
  "x (cursor (cursor_at cx cy v)) = cx" "y (cursor (cursor_at cx cy v)) = cy"
  "curSelection (cursor (cursor_at cx cy v)) = curSelection (cursor v)"
  "buf (cursor_at cx cy v) = buf v" "topline (cursor_at cx cy v) = topline v"
  "height (cursor_at cx cy v) = height v" "leftCol (cursor_at cx cy v) = leftCol v"
  "width (cursor_at cx cy v) = width v" "lineNumOffset (cursor_at cx cy v) = lineNumOffset v"
  by (simp_all add: cursor_at_def)

lemma selection_at_simps [simp]:
  "curSelection (cursor (selection_at a b v)) = (a, b)"
  "x (cursor (selection_at a b v)) = x (cursor v)" "y (cursor (selection_at a b v)) = y (cursor v)"
  "buf (selection_at a b v) = buf v" "topline (selection_at a b v) = topline v"
  "height (selection_at a b v) = height v"
  by (simp_all add: selection_at_def)

lemma plain_ops_edit_simps [simp]:
  "Right plain_ops = plain_Right" "Insert plain_ops = plain_Insert"
  by (simp_all add: plain_ops_def)

lemma ScrollDown_frame [simp]:
  "doc (ScrollDown n v) = doc v" "buf (ScrollDown n v) = buf v" "cursor (ScrollDown n v) = cursor v"
  "eh (ScrollDown n v) = eh v" "height (ScrollDown n v) = height v"
  "mouseReleased (ScrollDown n v) = mouseReleased v" "lastClickTime (ScrollDown n v) = lastClickTime v"
  "doubleClick (ScrollDown n v) = doubleClick v" "tripleClick (ScrollDown n v) = tripleClick v"
  by (simp_all add: ScrollDown_def doc_def)

lemma doc_flags [simp]:
  "doc (v\<lparr>lastClickTime := t\<rparr>) = doc v" "doc (v\<lparr>doubleClick := f\<rparr>) = doc v"
  "doc (v\<lparr>tripleClick := f\<rparr>) = doc v" "doc (v\<lparr>mouseReleased := f\<rparr>) = doc v"
  "doc (v\<lparr>matches := m\<rparr>) = doc v" "doc (v\<lparr>topline := n\<rparr>) = doc v"
  "doc (v\<lparr>leftCol := n\<rparr>) = doc v" "doc (v\<lparr>updateLines := u\<rparr>) = doc v"
  by (simp_all add: doc_def)

lemma fst_map_cursor [simp]: "fst (map_cursor f d) = f (fst d)"
  by (simp add: map_cursor_def split: prod.splits)

subsection \<open>Scrolling\<close>





text \<open>
  Claim C7. \<^verbatim>\<open>PageDown\<close> and \<^verbatim>\<open>HalfPageDown\<close> clamp at the end of the document: when
  fewer lines remain below the viewport than the step (the height, or half of it) and
  \<open>lineCount \<ge> height\<close>, the top line becomes exactly \<open>lineCount - height\<close>; and when the
  document is shorter than the viewport, \<^verbatim>\<open>PageDown\<close> changes nothing, so a top line of 0
  stays 0.
\<close>

theorem PageDown_clamps_at_end:
  "(len_lines v - (topline v + height v) < height v \<and> height v \<le> len_lines v
      \<longrightarrow> topline (PageDown v) = len_lines v - height v)
 \<and> (len_lines v - (topline v + height v) < quot (height v) 2 \<and> height v \<le> len_lines v
      \<longrightarrow> topline (HalfPageDown v) = len_lines v - height v)
 \<and> (len_lines v < height v \<and> 0 \<le> topline v \<longrightarrow> PageDown v = v)"
  by (auto simp add: PageDown_def HalfPageDown_def)

text \<open>
  The examples: eight lines and height 6, top line 1, where one line remains below the
  viewport; and the specification's example, height 10 and a document of three lines.
\<close>

theorem PageDown_clamps_at_end_example:
  "len_lines (demo_view\<lparr>height := 6, topline := 1\<rparr>)
      - (topline (demo_view\<lparr>height := 6, topline := 1\<rparr>) + height (demo_view\<lparr>height := 6, topline := 1\<rparr>))
      < quot (height (demo_view\<lparr>height := 6, topline := 1\<rparr>)) 2
   \<and> height (demo_view\<lparr>height := 6, topline := 1\<rparr>) \<le> len_lines (demo_view\<lparr>height := 6, topline := 1\<rparr>)
   \<and> topline (PageDown (demo_view\<lparr>height := 6, topline := 1\<rparr>)) = 2
   \<and> topline (HalfPageDown (demo_view\<lparr>height := 6, topline := 1\<rparr>)) = 2
   \<and> len_lines (demo_view\<lparr>buf := plain_NewBuffer (join_lines [''a'', ''b'', ''c'']) ''b.txt''\<rparr>) = 3
   \<and> height (demo_view\<lparr>buf := plain_NewBuffer (join_lines [''a'', ''b'', ''c'']) ''b.txt''\<rparr>) = 10
   \<and> PageDown (demo_view\<lparr>buf := plain_NewBuffer (join_lines [''a'', ''b'', ''c'']) ''b.txt''\<rparr>)
        = demo_view\<lparr>buf := plain_NewBuffer (join_lines [''a'', ''b'', ''c'']) ''b.txt''\<rparr>
   \<and> topline (PageDown (demo_view\<lparr>buf := plain_NewBuffer (join_lines [''a'', ''b'', ''c'']) ''b.txt''\<rparr>)) = 0"
  using PageDown_clamps_at_end [of "demo_view\<lparr>height := 6, topline := 1\<rparr>"]
    PageDown_clamps_at_end [of "demo_view\<lparr>buf := plain_NewBuffer (join_lines [''a'', ''b'', ''c'']) ''b.txt''\<rparr>"]
  by (simp add: quot_def plain_NewBuffer_def)

subsection \<open>Relocate\<close>




text \<open>
  Claim C9, as amended. In a view with \<open>height \<ge> 1\<close> and \<open>width \<ge> gutter + 1\<close>,
  \<^verbatim>\<open>Relocate\<close> returns true if and only if it changed \<open>topLine\<close> or \<open>leftColumn\<close>; and in
  every view, when the cursor is visible already it returns false and leaves the view as
  it is.
\<close>

theorem Relocate_result_reports_change:
  "(1 \<le> height v \<and> lineNumOffset v + 1 \<le> width v \<longrightarrow>
      (fst (Relocate ops v) \<longleftrightarrow>
         topline (snd (Relocate ops v)) \<noteq> topline v \<or> leftCol (snd (Relocate ops v)) \<noteq> leftCol v))
 \<and> (Visible ops v \<longrightarrow> Relocate ops v = (False, v))"
  using Relocate_ret [of v ops] Relocate_visible [of ops v] by blast

text \<open>
  The example: with height 2 and the cursor on line 5 the result is true and the top line
  has changed; in the example view the cursor is visible and the result is false.
\<close>

theorem Relocate_result_reports_change_example:
  "1 \<le> height (cursor_at 0 5 (demo_view\<lparr>height := 2\<rparr>))
   \<and> lineNumOffset (cursor_at 0 5 (demo_view\<lparr>height := 2\<rparr>)) + 1 \<le> width (cursor_at 0 5 (demo_view\<lparr>height := 2\<rparr>))
   \<and> fst (Relocate plain_ops (cursor_at 0 5 (demo_view\<lparr>height := 2\<rparr>)))
   \<and> topline (snd (Relocate plain_ops (cursor_at 0 5 (demo_view\<lparr>height := 2\<rparr>))))
        \<noteq> topline (cursor_at 0 5 (demo_view\<lparr>height := 2\<rparr>))
   \<and> Visible plain_ops demo_view
   \<and> Relocate plain_ops demo_view = (False, demo_view)"
  using Relocate_result_reports_change [of "cursor_at 0 5 (demo_view\<lparr>height := 2\<rparr>)" plain_ops]
    Relocate_result_reports_change [of demo_view plain_ops]
  by (simp add: cursor_at_def Visible_def Relocate_def doc_def)

text \<open>
  Claim C9 as stated fails in a view of height 0 (a terminal of two rows). With the cursor
  on line 5 and the top line 6, the first test sets the top line to 5 and the second test
  sets it back to 6: \<^verbatim>\<open>Relocate\<close> returns true, and neither \<open>topLine\<close> nor
  \<open>leftColumn\<close> has changed.
\<close>

theorem Relocate_true_without_change:
  "height (cursor_at 0 5 (demo_view\<lparr>height := 0, topline := 6\<rparr>)) = 0
   \<and> y (cursor (cursor_at 0 5 (demo_view\<lparr>height := 0, topline := 6\<rparr>))) = 5
   \<and> topline (cursor_at 0 5 (demo_view\<lparr>height := 0, topline := 6\<rparr>)) = 6
   \<and> leftCol (cursor_at 0 5 (demo_view\<lparr>height := 0, topline := 6\<rparr>)) = 0
   \<and> fst (Relocate plain_ops (cursor_at 0 5 (demo_view\<lparr>height := 0, topline := 6\<rparr>)))
   \<and> topline (snd (Relocate plain_ops (cursor_at 0 5 (demo_view\<lparr>height := 0, topline := 6\<rparr>)))) = 6
   \<and> leftCol (snd (Relocate plain_ops (cursor_at 0 5 (demo_view\<lparr>height := 0, topline := 6\<rparr>)))) = 0"
  by (simp add: cursor_at_def Relocate_def doc_def)

subsection \<open>The range of the top line\<close>










text \<open>
  The conditions of the amended claim are needed: a negative step, a negative height (a
  terminal of one row) and a cursor beyond the last line each take the top line out of its
  range.
\<close>

lemma TopLineInRange_conditions_needed:
  "TopLineInRange (demo_view\<lparr>height := 2, topline := 6\<rparr>)
   \<and> \<not> TopLineInRange (ScrollUp (- 1) (demo_view\<lparr>height := 2, topline := 6\<rparr>))
   \<and> TopLineInRange (demo_view\<lparr>height := - 1, topline := 9\<rparr>)
   \<and> \<not> TopLineInRange (PageUp (demo_view\<lparr>height := - 1, topline := 9\<rparr>))
   \<and> TopLineInRange (cursor_at 0 20 demo_view)
   \<and> \<not> TopLineInRange (snd (Relocate plain_ops (cursor_at 0 20 demo_view)))"
  by (simp add: cursor_at_def TopLineInRange_def ScrollUp_def PageUp_def Relocate_def doc_def)

subsection \<open>The clipboard\<close>

text \<open>
  Claim C8. When the clipboard is unsupported, \<^verbatim>\<open>Cut\<close> (with a selection) and \<^verbatim>\<open>Paste\<close>
  hand the message to the messenger and do nothing else: the view, and with it the buffer,
  the cursor and the selection, is the same before and after.
\<close>

theorem Clipboard_unsupported_aborts:
  assumes "Unsupported sys (env w)"
  shows "(HasSelection ops (doc (view w)) \<longrightarrow>
            Cut ops sys w = w\<lparr>env := Error sys ''Clipboard is not supported on your system'' (env w)\<rparr>)
       \<and> Paste ops sys w = w\<lparr>env := Error sys ''Clipboard is not supported on your system'' (env w)\<rparr>
       \<and> view (Cut ops sys w) = view w \<and> view (Paste ops sys w) = view w"
  using assms by (simp add: Cut_def Paste_def)

text \<open>
  The example: the example view with the first word selected, in a world without a
  clipboard; the messenger receives the one error.
\<close>

theorem Clipboard_unsupported_aborts_example:
  "Unsupported plain_sys (env (demo_world True (selection_at 0 5 demo_view)))
   \<and> HasSelection plain_ops (doc (view (demo_world True (selection_at 0 5 demo_view))))
   \<and> view (Cut plain_ops plain_sys (demo_world True (selection_at 0 5 demo_view))) = selection_at 0 5 demo_view
   \<and> view (Paste plain_ops plain_sys (demo_world True (selection_at 0 5 demo_view))) = selection_at 0 5 demo_view
   \<and> messages (env (Cut plain_ops plain_sys (demo_world True (selection_at 0 5 demo_view))))
        = [(True, ''Clipboard is not supported on your system'')]
   \<and> messages (env (Paste plain_ops plain_sys (demo_world True (selection_at 0 5 demo_view))))
        = [(True, ''Clipboard is not supported on your system'')]"
  using Clipboard_unsupported_aborts [of plain_sys "demo_world True (selection_at 0 5 demo_view)" plain_ops]
  by (simp add: demo_world_def selection_at_def plain_HasSelection_def doc_def)

text \<open>
  Claim C10. Without a selection, \<^verbatim>\<open>Copy\<close> and \<^verbatim>\<open>Cut\<close> do nothing at all: the clipboard
  and the messenger (both part of \<open>env\<close>), the buffer, the cursor and the selection are the
  same before and after, whether the clipboard is supported or not.
\<close>

theorem Copy_Cut_without_selection:
  assumes "\<not> HasSelection ops (doc (view w))"
  shows "Copy ops sys w = w \<and> Cut ops sys w = w"
  using assms by (simp add: Copy_def Cut_def)

text \<open>The example: nothing is selected in the example view; the world has no clipboard.\<close>

theorem Copy_Cut_without_selection_example:
  "\<not> HasSelection plain_ops (doc (view (demo_world True demo_view)))
   \<and> Unsupported plain_sys (env (demo_world True demo_view))
   \<and> Copy plain_ops plain_sys (demo_world True demo_view) = demo_world True demo_view
   \<and> Cut plain_ops plain_sys (demo_world True demo_view) = demo_world True demo_view"
  using Copy_Cut_without_selection [of plain_ops "demo_world True demo_view" plain_sys]
  by (simp add: demo_world_def plain_HasSelection_def doc_def)

subsection \<open>The lines marked for highlighting\<close>

lemma Marked_viewport_keys:
  "Marked ops sys st tsince tnow (EventKey KeyEnter r) w = Some (Viewport (view w))"
  "Marked ops sys st tsince tnow (EventKey KeyCtrlZ r) w = Some (Viewport (view w))"
  "Marked ops sys st tsince tnow (EventKey KeyCtrlY r) w = Some (Viewport (view w))"
  by (simp_all add: Marked_def HandleEvent_def HandleKey_def Let_def)

lemma Marked_paste:
  "Marked ops sys st tsince tnow (EventKey KeyCtrlV r) w = Some (Viewport (view w))"
  by (simp add: Marked_def HandleEvent_def HandleKey_def Let_def Viewport_def)

lemma Marked_backspace:
  assumes "HasSelection ops (doc (view w)) \<or> 0 < Loc ops (doc (view w))"
  shows "Marked ops sys st tsince tnow (EventKey KeyBackspace r) w = Some (Viewport (view w))"
    and "Marked ops sys st tsince tnow (EventKey KeyBackspace2 r) w = Some (Viewport (view w))"
  using assms by (auto simp add: Marked_def HandleEvent_def HandleKey_def Let_def)

lemma Marked_rune:
  "HasSelection ops (doc (view w)) \<Longrightarrow>
     Marked ops sys st tsince tnow (EventKey KeyRune r) w = Some (Viewport (view w))"
  "\<not> HasSelection ops (doc (view w)) \<Longrightarrow>
     Marked ops sys st tsince tnow (EventKey KeyRune r) w = Some (CursorLine (view w))"
  by (simp_all add: Marked_def HandleEvent_def HandleKey_def Let_def CursorLine_def)

lemma Marked_space_tab:
  "Marked ops sys st tsince tnow (EventKey KeySpace r) w
     = CursorLineAfter ops sys st tsince tnow (EventKey KeySpace r) w"
  "Marked ops sys st tsince tnow (EventKey KeyTab r) w
     = CursorLineAfter ops sys st tsince tnow (EventKey KeyTab r) w"
  "CursorLineAfter ops sys st tsince tnow (EventKey KeySpace r) w \<noteq> None"
  "CursorLineAfter ops sys st tsince tnow (EventKey KeyTab r) w \<noteq> None"
  by (simp_all add: Marked_def CursorLineAfter_def HandleEvent_def HandleKey_def Let_def CursorLine_def)

text \<open>
  Claim C4, as amended. After a newline, a deletion (backspace with a selection or with
  the cursor behind the start of the buffer), an undo, a redo and a paste, and after a
  printable rune typed over a selection, the range marked for highlighting is the whole
  viewport as the event found it, the lines \<open>topLine\<close> to \<open>topLine + height\<close>. After a
  printable rune, a space or a tab typed without a selection, the marked range is the line
  of the cursor alone: the line the cursor was on for the rune, the line it is on
  afterwards for the space and the tab.
\<close>

theorem Marked_after_edit:
  "Marked ops sys st tsince tnow (EventKey KeyEnter r) w = Some (Viewport (view w))
 \<and> (HasSelection ops (doc (view w)) \<or> 0 < Loc ops (doc (view w)) \<longrightarrow>
      Marked ops sys st tsince tnow (EventKey KeyBackspace r) w = Some (Viewport (view w))
      \<and> Marked ops sys st tsince tnow (EventKey KeyBackspace2 r) w = Some (Viewport (view w)))
 \<and> Marked ops sys st tsince tnow (EventKey KeyCtrlZ r) w = Some (Viewport (view w))
 \<and> Marked ops sys st tsince tnow (EventKey KeyCtrlY r) w = Some (Viewport (view w))
 \<and> Marked ops sys st tsince tnow (EventKey KeyCtrlV r) w = Some (Viewport (view w))
 \<and> (HasSelection ops (doc (view w)) \<longrightarrow>
      Marked ops sys st tsince tnow (EventKey KeyRune r) w = Some (Viewport (view w)))
 \<and> (\<not> HasSelection ops (doc (view w)) \<longrightarrow>
      Marked ops sys st tsince tnow (EventKey KeyRune r) w = Some (CursorLine (view w))
      \<and> Marked ops sys st tsince tnow (EventKey KeySpace r) w
           = CursorLineAfter ops sys st tsince tnow (EventKey KeySpace r) w
      \<and> CursorLineAfter ops sys st tsince tnow (EventKey KeySpace r) w \<noteq> None
      \<and> Marked ops sys st tsince tnow (EventKey KeyTab r) w
           = CursorLineAfter ops sys st tsince tnow (EventKey KeyTab r) w
      \<and> CursorLineAfter ops sys st tsince tnow (EventKey KeyTab r) w \<noteq> None)"
  using Marked_viewport_keys [of ops sys st tsince tnow r w] Marked_paste [of ops sys st tsince tnow r w]
    Marked_backspace [of ops w sys st tsince tnow r] Marked_rune [of ops w sys st tsince tnow r]
    Marked_space_tab [of ops sys st tsince tnow r w]
  by blast

text \<open>
  The example: the example view with the cursor in column 3 of the second line, without a
  selection and with the first word selected. The viewport is marked as the lines 0 to 10
  (stored as \<open>(0, 11)\<close>), the line of the cursor as \<open>(1, 2)\<close>.
\<close>

theorem Marked_after_edit_example:
  "0 < Loc plain_ops (doc (view (demo_world False (cursor_at 3 1 demo_view))))
   \<and> \<not> HasSelection plain_ops (doc (view (demo_world False (cursor_at 3 1 demo_view))))
   \<and> Marked plain_ops plain_sys plain_settings 0 0 (EventKey KeyEnter [])
        (demo_world False (cursor_at 3 1 demo_view)) = Some (0, 11)
   \<and> Marked plain_ops plain_sys plain_settings 0 0 (EventKey KeyBackspace [])
        (demo_world False (cursor_at 3 1 demo_view)) = Some (0, 11)
   \<and> Marked plain_ops plain_sys plain_settings 0 0 (EventKey KeyCtrlZ [])
        (demo_world False (cursor_at 3 1 demo_view)) = Some (0, 11)
   \<and> Marked plain_ops plain_sys plain_settings 0 0 (EventKey KeyCtrlY [])
        (demo_world False (cursor_at 3 1 demo_view)) = Some (0, 11)
   \<and> Marked plain_ops plain_sys plain_settings 0 0 (EventKey KeyCtrlV [])
        (demo_world False (cursor_at 3 1 demo_view)) = Some (0, 11)
   \<and> Marked plain_ops plain_sys plain_settings 0 0 (EventKey KeyRune ''a'')
        (demo_world False (cursor_at 3 1 demo_view)) = Some (1, 2)
   \<and> Marked plain_ops plain_sys plain_settings 0 0 (EventKey KeySpace ''a'')
        (demo_world False (cursor_at 3 1 demo_view))
        = CursorLineAfter plain_ops plain_sys plain_settings 0 0 (EventKey KeySpace ''a'')
            (demo_world False (cursor_at 3 1 demo_view))
   \<and> HasSelection plain_ops (doc (view (demo_world False (selection_at 0 5 demo_view))))
   \<and> Marked plain_ops plain_sys plain_settings 0 0 (EventKey KeyRune ''a'')
        (demo_world False (selection_at 0 5 demo_view)) = Some (0, 11)"
  using Marked_after_edit [of plain_ops plain_sys plain_settings 0 0 "[]"
      "demo_world False (cursor_at 3 1 demo_view)"]
    Marked_after_edit [of plain_ops plain_sys plain_settings 0 0 "''a''"
      "demo_world False (cursor_at 3 1 demo_view)"]
    Marked_after_edit [of plain_ops plain_sys plain_settings 0 0 "''a''"
      "demo_world False (selection_at 0 5 demo_view)"]
  by (simp add: plain_HasSelection_def plain_Loc_def plain_ToCharPos_def doc_def Viewport_def
      CursorLine_def)

lemma CursorLineAfter_space:
  "CursorLineAfter ops sys st tsince tnow (EventKey KeySpace r) w
     = Some (let d = DeleteIfSelected ops (doc (view w));
                 c = fst (Right ops (Insert ops (Loc ops d) '' '' d))
             in (y c, y c + 1))"
  by (simp add: CursorLineAfter_def CursorLine_def HandleEvent_def HandleKey_def Let_def)

lemma CursorLineAfter_tab:
  "CursorLineAfter ops sys st tsince tnow (EventKey KeyTab r) w
     = Some (let d = DeleteIfSelected ops (doc (view w));
                 c = fst (if TabsToSpaces st
                          then (Right ops ^^ nat (TabSize st))
                                 (Insert ops (Loc ops d) (Spaces ops (TabSize st)) d)
                          else Right ops (Insert ops (Loc ops d) [CHR 0x09] d))
             in (y c, y c + 1))"
  by (simp add: CursorLineAfter_def CursorLine_def HandleEvent_def HandleKey_def Let_def)

lemma plain_Right_same_line:
  "x (fst d) < plain_Count (line_at (fst (snd d)) (y (fst d))) \<Longrightarrow> y (fst (plain_Right d)) = y (fst d)"
  by (cases d) (simp add: plain_Right_def)

text \<open>
  Claim C4 as stated fails for the single characters. In the example view, whose viewport
  is marked as \<open>(0, 11)\<close>, with the cursor in column 3 of the second line and nothing
  selected, typing the letter a, a space or a tab marks the second line only.
\<close>

theorem Marked_single_character_is_one_line:
  "Viewport (view (demo_world False (cursor_at 3 1 demo_view))) = (0, 11)
   \<and> Marked plain_ops plain_sys plain_settings 0 0 (EventKey KeyRune ''a'')
        (demo_world False (cursor_at 3 1 demo_view)) = Some (1, 2)
   \<and> Marked plain_ops plain_sys plain_settings 0 0 (EventKey KeySpace '' '')
        (demo_world False (cursor_at 3 1 demo_view)) = Some (1, 2)
   \<and> Marked plain_ops plain_sys plain_settings 0 0 (EventKey KeyTab [])
        (demo_world False (cursor_at 3 1 demo_view)) = Some (1, 2)"
proof -
  let ?v = "cursor_at 3 1 demo_view"
  let ?w = "demo_world False ?v"
  have nosel: "\<not> HasSelection plain_ops (doc (view ?w))"
    by (simp add: plain_HasSelection_def doc_def)
  have d: "DeleteIfSelected plain_ops (doc ?v) = doc ?v"
    using nosel by (simp add: DeleteIfSelected_def)
  have loc: "plain_Loc (doc ?v) = 15"
    by (simp add: plain_Loc_def plain_ToCharPos_def doc_def)
  have joined: "join_lines (lines (buf ?v))
      = ''hello world'' @ CHR 0x0A # ''foo bar'' @ CHR 0x0A # ''one'' @ CHR 0x0A # ''two'' @ CHR 0x0A
          # ''three'' @ CHR 0x0A # ''four'' @ CHR 0x0A # ''five'' @ CHR 0x0A # ''six''"
    by simp
  have ins: "y (fst (plain_Right (plain_Insert 15 s (doc ?v)))) = 1" if "s = '' '' \<or> s = [CHR 0x09]" for s
  proof -
    have c: "fst (plain_Insert 15 s (doc ?v)) = cursor ?v"
      by (simp add: plain_Insert_def doc_def Let_def)
    have l: "line_at (fst (snd (plain_Insert 15 s (doc ?v)))) 1 = ''foo'' @ s @ '' bar''"
      using that by (auto simp add: plain_Insert_def doc_def Let_def line_at_def joined)
    show ?thesis
      using that plain_Right_same_line [of "plain_Insert 15 s (doc ?v)"]
      by (auto simp add: c l plain_Count_def)
  qed
  have rune: "Marked plain_ops plain_sys plain_settings 0 0 (EventKey KeyRune ''a'') ?w = Some (1, 2)"
    using Marked_rune(2) [OF nosel] by (simp add: CursorLine_def)
  have space: "Marked plain_ops plain_sys plain_settings 0 0 (EventKey KeySpace '' '') ?w = Some (1, 2)"
    using ins [of "'' ''"]
    by (simp add: Marked_space_tab(1) CursorLineAfter_space d loc Let_def)
  have tab: "Marked plain_ops plain_sys plain_settings 0 0 (EventKey KeyTab []) ?w = Some (1, 2)"
    using ins [of "[CHR 0x09]"]
    by (simp add: Marked_space_tab(2) CursorLineAfter_tab d loc Let_def plain_settings_def)
  show ?thesis
    using rune space tab by (simp add: Viewport_def)
qed

subsection \<open>Clicks\<close>

lemma ScrollDown_updateLines: "ScrollDown n (v\<lparr>updateLines := u\<rparr>) = (ScrollDown n v)\<lparr>updateLines := u\<rparr>"
  by (simp add: ScrollDown_def)

lemma map_option_if_None: "map_option f (if c then None else Some t) = (if c then None else Some (f t))"
  by simp

lemma MoveToMouseClick_doc_UpdateLines:
  "map_option doc (MoveToMouseClick ops mx my (UpdateLines a b v))
     = map_option doc (MoveToMouseClick ops mx my v)"
proof (cases "my - topline v > height v - 1")
  case True
  then show ?thesis
    by (simp add: MoveToMouseClick_def Let_def ScrollDown_updateLines UpdateLines_def
        map_option_if_None doc_def split del: if_split cong: if_cong)
next
  case False
  then show ?thesis
    by (simp add: MoveToMouseClick_def Let_def UpdateLines_def map_option_if_None doc_def
        split del: if_split cong: if_cong)
qed

lemma MoveToMouseClick_frame:
  assumes "MoveToMouseClick ops mx my v = Some v1"
  shows "mouseReleased v1 = mouseReleased v" and "lastClickTime v1 = lastClickTime v"
    and "doubleClick v1 = doubleClick v" and "tripleClick v1 = tripleClick v"
proof -
  have "\<exists>c. v1 = (if my - topline v > height v - 1 then ScrollDown 1 v else v)\<lparr>cursor := c\<rparr>"
  proof (cases "my - topline v > height v - 1")
    case True
    with assms show ?thesis
      by (auto simp add: MoveToMouseClick_def Let_def split: if_split_asm)
  next
    case False
    with assms show ?thesis
      by (auto simp add: MoveToMouseClick_def Let_def split: if_split_asm)
  qed
  then obtain c where "v1 = (if my - topline v > height v - 1 then ScrollDown 1 v else v)\<lparr>cursor := c\<rparr>" ..
  then show "mouseReleased v1 = mouseReleased v" and "lastClickTime v1 = lastClickTime v"
    and "doubleClick v1 = doubleClick v" and "tripleClick v1 = tripleClick v"
    by simp_all
qed

lemma HandleMouse_Button1:
  assumes "MoveToMouseClick ops (ex - (lineNumOffset (view w) - leftCol (view w)) - 1)
      (ey + topline (view w) - 1) (view w) = Some v1"
  shows "HandleMouse ops sys tsince tnow ex ey Button1 w =
      Some (True, w\<lparr>view :=
        (if mouseReleased v1 then
           (if quot (Since tsince (lastClickTime v1)) 1000000 < doubleClickThreshold sys
               \<and> (x (cursor (view w)) = x (cursor v1) \<and> y (cursor (view w)) = y (cursor v1)) then
              (if doubleClick v1
               then set_doc (SelectLine ops (doc v1))
                      (v1\<lparr>lastClickTime := tnow, tripleClick := True, doubleClick := False\<rparr>)
               else set_doc (SelectWord ops (doc v1))
                      (v1\<lparr>lastClickTime := tnow, doubleClick := True, tripleClick := False\<rparr>))
            else v1\<lparr>doubleClick := False, tripleClick := False, lastClickTime := tnow,
                     cursor := (cursor v1)\<lparr>curSelection := (Loc ops (doc v1), Loc ops (doc v1))\<rparr>\<rparr>)
         else
           (if tripleClick v1 then set_doc (AddLineToSelection ops (doc v1)) v1
            else if doubleClick v1 then set_doc (AddWordToSelection ops (doc v1)) v1
            else v1\<lparr>cursor := (cursor v1)\<lparr>curSelection :=
                      (fst (curSelection (cursor v1)), Loc ops (doc v1))\<rparr>\<rparr>))\<lparr>mouseReleased := False\<rparr>\<rparr>)"
  unfolding HandleMouse_def Let_def assms
  by (simp add: doc_def)

lemma HandleEvent_mouse:
  assumes "HandleMouse ops sys tsince tnow ex ey button (w\<lparr>view := UpdateLines (- 2) 0 (view w)\<rparr>)
      = Some (True, w1)"
  shows "HandleEvent ops sys st tsince tnow (EventMouse ex ey button) w =
      Some (if Syntax st
            then w1\<lparr>view := (snd (Relocate ops (view w1)))\<lparr>matches := Match sys (snd (Relocate ops (view w1)))\<rparr>\<rparr>
            else w1\<lparr>view := snd (Relocate ops (view w1))\<rparr>)"
  unfolding HandleEvent_def Let_def by (simp add: assms)

text \<open>
  Claim C5, as amended. When the mouse is in the released state, a left button down that
  resolves to the position the cursor has when the event arrives (the position of the
  previous click, unless a drag, a release or a key moved the cursor since) and that
  arrives within the double click threshold selects exactly the word at that position if
  the previous click was not a double click, and exactly the line if it was; a button down
  outside the threshold, or resolving to a position other than the cursor's, starts again
  as a single click, with the selection collapsed at the click position. Here the word and
  the line are what \<^verbatim>\<open>SelectWord\<close> and \<^verbatim>\<open>SelectLine\<close> select with the cursor at the click
  position.
\<close>

theorem Click_multiplicity:
  assumes "mouseReleased (view w)" and "Resolve ops ex ey (view w) = Some d1"
  shows "\<exists>w'. HandleEvent ops sys st tsince tnow (EventMouse ex ey Button1) w = Some w'
     \<and> (if WithinThreshold sys tsince (view w)
            \<and> x (cursor (view w)) = x (fst d1) \<and> y (cursor (view w)) = y (fst d1)
         then (if doubleClick (view w)
               then doc (view w') = SelectLine ops d1
                    \<and> \<not> doubleClick (view w') \<and> tripleClick (view w')
               else doc (view w') = SelectWord ops d1
                    \<and> doubleClick (view w') \<and> \<not> tripleClick (view w'))
         else doc (view w') = map_cursor (\<lambda>c. c\<lparr>curSelection := (Loc ops d1, Loc ops d1)\<rparr>) d1
              \<and> \<not> doubleClick (view w') \<and> \<not> tripleClick (view w'))"
proof -
  let ?w0 = "w\<lparr>view := UpdateLines (- 2) 0 (view w)\<rparr>"
  let ?hit = "quot (Since tsince (lastClickTime (view w))) 1000000 < doubleClickThreshold sys
      \<and> x (cursor (view w)) = x (fst d1) \<and> y (cursor (view w)) = y (fst d1)"
  have "map_option doc (MoveToMouseClick ops (ex - (lineNumOffset (view w) - leftCol (view w)) - 1)
      (ey + topline (view w) - 1) (UpdateLines (- 2) 0 (view w))) = Some d1"
    using assms(2) by (simp only: Resolve_def MoveToMouseClick_doc_UpdateLines)
  then obtain v1 where mv: "MoveToMouseClick ops (ex - (lineNumOffset (view w) - leftCol (view w)) - 1)
      (ey + topline (view w) - 1) (UpdateLines (- 2) 0 (view w)) = Some v1" and d1: "doc v1 = d1"
    by auto
  have move: "MoveToMouseClick ops (ex - (lineNumOffset (view ?w0) - leftCol (view ?w0)) - 1)
      (ey + topline (view ?w0) - 1) (view ?w0) = Some v1"
    using mv by simp
  have flags: "mouseReleased v1" "lastClickTime v1 = lastClickTime (view w)"
    "doubleClick v1 = doubleClick (view w)" "tripleClick v1 = tripleClick (view w)"
    using assms(1) MoveToMouseClick_frame [OF mv] by simp_all
  have c1: "cursor v1 = fst d1"
    using d1 by (auto simp add: doc_def)
  note hm = HandleMouse_Button1 [OF move, of sys tsince tnow]
  note he = HandleEvent_mouse [OF hm, of st]
  have d: "doc (v1\<lparr>doubleClick := False, tripleClick := False, lastClickTime := tnow,
        cursor := (fst d1)\<lparr>curSelection := (l, l)\<rparr>\<rparr>)
      = map_cursor (\<lambda>c. c\<lparr>curSelection := (l, l)\<rparr>) d1" for l
    using d1 by (auto simp add: doc_def map_cursor_def)
  show ?thesis
  proof (cases ?hit)
    case True
    then show ?thesis
      unfolding he using flags
      by (cases "doubleClick (view w)") (simp_all add: WithinThreshold_def d1 c1)
  next
    case False
    then show ?thesis
      unfolding he using flags by (simp add: d d1 c1 WithinThreshold_def del: de_Morgan_conj)
  qed
qed

lemma cursor_doc: "cursor v = fst (doc v)"
  by (simp add: doc_def)

lemma ClickState_doc:
  "ClickState w = (doubleClick (view w), tripleClick (view w), curSelection (fst (doc (view w))),
     (x (fst (doc (view w))), y (fst (doc (view w)))))"
  by (simp add: ClickState_def doc_def)

lemma demo_click_resolves:
  "Resolve plain_ops 5 1 (cursor_at 2 0 (demo_view\<lparr>lastClickTime := t, doubleClick := f\<rparr>))
     = Some (doc (cursor_at 2 0 (demo_view\<lparr>lastClickTime := t, doubleClick := f\<rparr>)))"
  by (simp add: Resolve_def MoveToMouseClick_def Let_def cursor_at_def doc_def plain_Count_def)

lemma demo_word_and_line:
  "curSelection (fst (plain_SelectWord (doc (cursor_at 2 0 (demo_view\<lparr>lastClickTime := t, doubleClick := f\<rparr>))))) = (0, 5)"
  "curSelection (fst (plain_SelectLine (doc (cursor_at 2 0 (demo_view\<lparr>lastClickTime := t, doubleClick := f\<rparr>))))) = (0, 11)"
  "x (fst (plain_SelectWord (doc (cursor_at 2 0 (demo_view\<lparr>lastClickTime := t, doubleClick := f\<rparr>))))) = 2"
  "y (fst (plain_SelectWord (doc (cursor_at 2 0 (demo_view\<lparr>lastClickTime := t, doubleClick := f\<rparr>))))) = 0"
  "x (fst (plain_SelectLine (doc (cursor_at 2 0 (demo_view\<lparr>lastClickTime := t, doubleClick := f\<rparr>))))) = 2"
  "y (fst (plain_SelectLine (doc (cursor_at 2 0 (demo_view\<lparr>lastClickTime := t, doubleClick := f\<rparr>))))) = 0"
  "plain_Loc (doc (cursor_at 2 0 (demo_view\<lparr>lastClickTime := t, doubleClick := f\<rparr>))) = 2"
  "x (fst (doc (cursor_at 2 0 (demo_view\<lparr>lastClickTime := t, doubleClick := f\<rparr>)))) = 2"
  "y (fst (doc (cursor_at 2 0 (demo_view\<lparr>lastClickTime := t, doubleClick := f\<rparr>)))) = 0"
  by (simp_all add: plain_SelectWord_def plain_SelectLine_def word_range_def line_range_def
      word_start_def word_end_def line_at_def plain_ToCharPos_def plain_Count_def plain_Loc_def
      doc_def cursor_at_def)

text \<open>
  The example: the cursor of the example view is in column 2 of the first line, where a
  click at 1.000000001 seconds has put it; the mouse is released. A click on the same cell
  at 1.1 seconds selects the word (offsets 0 to 5) as a double click and, if the previous
  click was a double click, the line (offsets 0 to 11) as a triple click; a click on the
  same cell at 2 seconds is a single click again.
\<close>

theorem Click_multiplicity_example:
  "mouseReleased (view (demo_world False (cursor_at 2 0
      (demo_view\<lparr>lastClickTime := 1000000001, doubleClick := False\<rparr>))))
   \<and> Resolve plain_ops 5 1 (cursor_at 2 0 (demo_view\<lparr>lastClickTime := 1000000001, doubleClick := False\<rparr>))
        = Some (doc (cursor_at 2 0 (demo_view\<lparr>lastClickTime := 1000000001, doubleClick := False\<rparr>)))
   \<and> WithinThreshold plain_sys 1100000000
        (cursor_at 2 0 (demo_view\<lparr>lastClickTime := 1000000001, doubleClick := False\<rparr>))
   \<and> map_option ClickState
        (HandleEvent plain_ops plain_sys plain_settings 1100000000 1100000001 (EventMouse 5 1 Button1)
           (demo_world False (cursor_at 2 0 (demo_view\<lparr>lastClickTime := 1000000001, doubleClick := False\<rparr>))))
        = Some (True, False, (0, 5), (2, 0))
   \<and> map_option ClickState
        (HandleEvent plain_ops plain_sys plain_settings 1100000000 1100000001 (EventMouse 5 1 Button1)
           (demo_world False (cursor_at 2 0 (demo_view\<lparr>lastClickTime := 1000000001, doubleClick := True\<rparr>))))
        = Some (False, True, (0, 11), (2, 0))
   \<and> \<not> WithinThreshold plain_sys 2000000000
        (cursor_at 2 0 (demo_view\<lparr>lastClickTime := 1000000001, doubleClick := False\<rparr>))
   \<and> map_option ClickState
        (HandleEvent plain_ops plain_sys plain_settings 2000000000 2000000001 (EventMouse 5 1 Button1)
           (demo_world False (cursor_at 2 0 (demo_view\<lparr>lastClickTime := 1000000001, doubleClick := False\<rparr>))))
        = Some (False, False, (2, 2), (2, 0))"
proof -
  let ?v = "\<lambda>f. cursor_at 2 0 (demo_view\<lparr>lastClickTime := 1000000001, doubleClick := f\<rparr>)"
  have rel: "mouseReleased (view (demo_world False (?v f)))" for f
    by (simp add: cursor_at_def)
  have res: "Resolve plain_ops 5 1 (view (demo_world False (?v f))) = Some (doc (?v f))" for f
    by (simp add: demo_click_resolves)
  have within: "WithinThreshold plain_sys 1100000000 (?v f)" for f
    by (simp add: WithinThreshold_def Since_def quot_def cursor_at_def)
  have late: "\<not> WithinThreshold plain_sys 2000000000 (?v f)" for f
    by (simp add: WithinThreshold_def Since_def quot_def cursor_at_def)
  have flag: "doubleClick (?v f) = f" for f
    by (simp add: cursor_at_def)
  have double: "map_option ClickState
      (HandleEvent plain_ops plain_sys plain_settings 1100000000 1100000001 (EventMouse 5 1 Button1)
         (demo_world False (?v False))) = Some (True, False, (0, 5), (2, 0))"
    using Click_multiplicity [OF rel [of False] res [of False], of plain_sys plain_settings 1100000000 1100000001]
      within [of False]
    by (auto simp add: ClickState_doc demo_word_and_line flag)
  have triple: "map_option ClickState
      (HandleEvent plain_ops plain_sys plain_settings 1100000000 1100000001 (EventMouse 5 1 Button1)
         (demo_world False (?v True))) = Some (False, True, (0, 11), (2, 0))"
    using Click_multiplicity [OF rel [of True] res [of True], of plain_sys plain_settings 1100000000 1100000001]
      within [of True]
    by (auto simp add: ClickState_doc demo_word_and_line flag)
  have single: "map_option ClickState
      (HandleEvent plain_ops plain_sys plain_settings 2000000000 2000000001 (EventMouse 5 1 Button1)
         (demo_world False (?v False))) = Some (False, False, (2, 2), (2, 0))"
    using Click_multiplicity [OF rel [of False] res [of False], of plain_sys plain_settings 2000000000 2000000001]
      late [of False]
    by (auto simp add: ClickState_doc demo_word_and_line)
  show ?thesis
    using rel [of False] res [of False] within [of False] late [of False] double triple single
    by simp
qed

text \<open>
  Claim C5 as stated fails when the cursor has moved since the previous click. In the
  example view, the left button is pressed on column 2 of the first line (a single click:
  the last click is long ago), the mouse is dragged to column 8 and released there, and
  0.1 seconds after the first press the button is pressed again on column 8. This second
  press resolves to a position other than that of the previous click, and still it counts
  as a double click and selects the word under it (offsets 6 to 11), the cursor being at
  column 8 already when it arrives.
\<close>

theorem Click_after_drag_is_double:
  "map_option ClickState
     (Run plain_ops plain_sys plain_settings (take 1 drag_then_click) (demo_world False demo_view))
     = Some (False, False, (2, 2), (2, 0))
   \<and> map_option ClickState
     (Run plain_ops plain_sys plain_settings (take 2 drag_then_click) (demo_world False demo_view))
     = Some (False, False, (2, 8), (8, 0))
   \<and> map_option ClickState
     (Run plain_ops plain_sys plain_settings drag_then_click (demo_world False demo_view))
     = Some (True, False, (6, 11), (8, 0))"
  by (simp add: drag_then_click_def HandleEvent_def HandleMouse_def MoveToMouseClick_def Let_def
      Relocate_def UpdateLines_def doc_def set_doc_def ClickState_def Since_def quot_def WithinThreshold_def
      plain_ops_def plain_sys_def plain_settings_def demo_world_def demo_view_def plain_NewBuffer_def
      plain_Count_def plain_Loc_def plain_ToCharPos_def plain_SelectWord_def word_range_def
      word_start_def word_end_def line_at_def)

end
